theory Spec2Isabelle
  imports Complex_Main
begin

section \<open>Python values\<close>

text \<open>
  Python \<open>float\<close> and NumPy \<open>float32\<close> values are idealised as \<^typ>\<open>real\<close>: no rounding, no
  infinities, no NaN.  Python \<open>int\<close> is \<^typ>\<open>int\<close> or \<^typ>\<open>nat\<close> (lengths, counts).  A Python
  \<open>str\<close> is the list of its Unicode code points, so that \<open>len\<close> counts what Python counts.
  Exceptions are values of \<open>py_error\<close>; a method that mutates \<open>self\<close> returns the new state,
  and where it raises it returns the exception together with the state reached at the raise.
\<close>

type_synonym str = "nat list"
type_synonym vec = "real list"

datatype py_error =
    ValueError | IndexError | KeyError | AttributeError | AssertionError | RuntimeError
  | TypeError | ZeroDivisionError

text \<open>\<open>xs[i]\<close> on a Python list: a negative index counts from the end, out of range raises.\<close>

definition py_getitem :: "'a list \<Rightarrow> int \<Rightarrow> py_error + 'a" where
  "py_getitem xs i =
     (if 0 \<le> i \<and> i < int (length xs) then Inr (xs ! nat i)
      else if i < 0 \<and> 0 \<le> int (length xs) + i then Inr (xs ! nat (int (length xs) + i))
      else Inl IndexError)"

text \<open>
  A two-dimensional \<open>numpy.ndarray\<close> of shape \<open>(len(rows), shape1)\<close>.  The shape is stored
  because an array without rows still has a second dimension.
\<close>

record ndarray =
  shape1 :: nat
  rows :: "vec list"

definition wf_ndarray :: "ndarray \<Rightarrow> bool" where
  "wf_ndarray a = list_all (\<lambda>r. length r = shape1 a) (rows a)"

section \<open>The FAISS library, as far as \<open>vector_db_manager.py\<close> uses it\<close>

text \<open>
  FAISS is not part of the repository.  The model below follows its documented interface:
  \<^item> \<open>IndexFlatIP(d)\<close> scores by inner product and returns the largest scores first;
  \<^item> \<open>IndexIVFFlat(quantizer, d, nlist)\<close> and \<open>IndexHNSWFlat(d, M)\<close> are constructed by the
    repository without a metric argument, and FAISS's default metric is \<open>METRIC_L2\<close>: they
    score by squared Euclidean distance and return the smallest distances first;
  \<^item> \<open>search(x, k)\<close> returns exactly \<open>k\<close> (score, label) pairs per query, padded with label
    \<open>-1\<close> when fewer than \<open>k\<close> vectors were found;
  \<^item> an IVF index must be trained before \<open>add\<close> and \<open>search\<close>, on at least \<open>nlist = 100\<close>
    vectors; \<open>train\<close> does nothing on the other two.
  The approximate indexes (IVF, HNSW) examine only part of the stored vectors.  Which
  ordinals they examine for a query is the parameter \<open>visit\<close>; the exact index ignores it.
  Among equal inner products \<open>IndexFlatIP\<close> returns the later ordinal first; for the L2
  indexes the model ranks the earlier ordinal first.  No property below depends on the
  order among equal scores.
\<close>

datatype faiss_index =
    IndexFlatIP nat "vec list"
  | IndexIVFFlat nat bool "vec list"
  | IndexHNSWFlat nat "vec list"

fun d_of :: "faiss_index \<Rightarrow> nat" where
  "d_of (IndexFlatIP d vs) = d"
| "d_of (IndexIVFFlat d tr vs) = d"
| "d_of (IndexHNSWFlat d vs) = d"

fun stored :: "faiss_index \<Rightarrow> vec list" where
  "stored (IndexFlatIP d vs) = vs"
| "stored (IndexIVFFlat d tr vs) = vs"
| "stored (IndexHNSWFlat d vs) = vs"

definition ntotal :: "faiss_index \<Rightarrow> nat" where
  "ntotal ix = length (stored ix)"

definition inner_product :: "vec \<Rightarrow> vec \<Rightarrow> real" where
  "inner_product x y = (\<Sum>(a, b) \<leftarrow> zip x y. a * b)"

definition l2_sqr :: "vec \<Rightarrow> vec \<Rightarrow> real" where
  "l2_sqr x y = (\<Sum>(a, b) \<leftarrow> zip x y. (a - b) * (a - b))"

text \<open>\<open>faiss.normalize_L2\<close>: every row of non-zero norm is divided by its norm.\<close>

definition normalize_row :: "vec \<Rightarrow> vec" where
  "normalize_row v =
     (let nr = inner_product v v in if 0 < nr then map (\<lambda>x. x / sqrt nr) v else v)"

definition normalize_L2 :: "ndarray \<Rightarrow> ndarray" where
  "normalize_L2 a = a\<lparr>rows := map normalize_row (rows a)\<rparr>"

fun faiss_train :: "faiss_index \<Rightarrow> ndarray \<Rightarrow> py_error + faiss_index" where
  "faiss_train (IndexIVFFlat d tr vs) a =
     (if shape1 a \<noteq> d then Inl AssertionError
      else if tr then Inr (IndexIVFFlat d tr vs)
      else if length (rows a) < 100 then Inl RuntimeError
      else Inr (IndexIVFFlat d True vs))"
| "faiss_train ix a = (if shape1 a \<noteq> d_of ix then Inl AssertionError else Inr ix)"

fun faiss_add :: "faiss_index \<Rightarrow> ndarray \<Rightarrow> py_error + faiss_index" where
  "faiss_add (IndexFlatIP d vs) a =
     (if shape1 a \<noteq> d then Inl AssertionError else Inr (IndexFlatIP d (vs @ rows a)))"
| "faiss_add (IndexIVFFlat d tr vs) a =
     (if shape1 a \<noteq> d then Inl AssertionError
      else if \<not> tr then Inl RuntimeError
      else Inr (IndexIVFFlat d tr (vs @ rows a)))"
| "faiss_add (IndexHNSWFlat d vs) a =
     (if shape1 a \<noteq> d then Inl AssertionError else Inr (IndexHNSWFlat d (vs @ rows a)))"

definition FLT_MAX :: real where
  "FLT_MAX = (2 ^ 24 - 1) * 2 ^ 104"

definition pad :: "nat \<Rightarrow> real \<Rightarrow> (real \<times> int) list \<Rightarrow> (real \<times> int) list" where
  "pad k filler hits = hits @ replicate (k - length hits) (filler, - 1)"

definition scored :: "(vec \<Rightarrow> real) \<Rightarrow> (nat \<Rightarrow> bool) \<Rightarrow> vec list \<Rightarrow> (real \<times> int) list" where
  "scored f seen vs = [(f (vs ! i), int i). i \<leftarrow> [0..<length vs], seen i]"

definition top_ip :: "vec list \<Rightarrow> vec \<Rightarrow> nat \<Rightarrow> (real \<times> int) list" where
  "top_ip vs q k =
     pad k (- FLT_MAX)
       (take k (sort_key (\<lambda>h. - fst h) (rev (scored (inner_product q) (\<lambda>i. True) vs))))"

definition top_l2 :: "(vec \<Rightarrow> nat \<Rightarrow> bool) \<Rightarrow> vec list \<Rightarrow> vec \<Rightarrow> nat \<Rightarrow> (real \<times> int) list" where
  "top_l2 visit vs q k =
     pad k FLT_MAX (take k (sort_key fst (scored (l2_sqr q) (visit q) vs)))"

fun faiss_search ::
  "(vec \<Rightarrow> nat \<Rightarrow> bool) \<Rightarrow> faiss_index \<Rightarrow> vec \<Rightarrow> nat \<Rightarrow> py_error + (real \<times> int) list" where
  "faiss_search visit (IndexFlatIP d vs) q k =
     (if length q \<noteq> d \<or> k = 0 then Inl AssertionError else Inr (top_ip vs q k))"
| "faiss_search visit (IndexIVFFlat d tr vs) q k =
     (if length q \<noteq> d \<or> k = 0 then Inl AssertionError
      else if \<not> tr then Inl RuntimeError
      else Inr (top_l2 visit vs q k))"
| "faiss_search visit (IndexHNSWFlat d vs) q k =
     (if length q \<noteq> d \<or> k = 0 then Inl AssertionError else Inr (top_l2 visit vs q k))"

section \<open>\<open>vector_db_manager.py\<close>: class \<open>VectorDBManager\<close>\<close>

text \<open>
  \<open>index_type\<close> is a string; the constructor builds an index for \<open>"Flat"\<close>, \<open>"IVF"\<close> and
  \<open>"HNSW"\<close> and leaves \<open>self.index = None\<close> for every other string (\<open>OtherType\<close>).
\<close>

datatype index_type = Flat | IVF | HNSW | OtherType

record 'm vdb =
  dimension :: nat
  index_type :: index_type
  index :: "faiss_index option"
  metadata :: "'m list"
  is_trained :: bool

definition create_index :: "nat \<Rightarrow> index_type \<Rightarrow> faiss_index option" where
  "create_index d t =
     (case t of
        Flat \<Rightarrow> Some (IndexFlatIP d [])
      | IVF \<Rightarrow> Some (IndexIVFFlat d False [])
      | HNSW \<Rightarrow> Some (IndexHNSWFlat d [])
      | OtherType \<Rightarrow> None)"

definition init :: "nat \<Rightarrow> index_type \<Rightarrow> 'm vdb" where
  "init d t =
     \<lparr>dimension = d, index_type = t, index = create_index d t, metadata = [],
      is_trained = False\<rparr>"

text \<open>
  \<open>add_documents\<close>, in the order of the source: the shape check, the normalisation, the
  training step of an untrained IVF manager (training on 100 rows or more, otherwise the
  index is replaced by a new, empty \<open>IndexFlatIP\<close>), then \<open>index.add\<close> and
  \<open>metadata.extend\<close>.
\<close>

definition train_step :: "'m vdb \<Rightarrow> ndarray \<Rightarrow> py_error \<times> 'm vdb + 'm vdb" where
  "train_step db a =
     (if index_type db = IVF \<and> \<not> is_trained db then
        (if 100 \<le> length (rows a) then
           (case index db of
              None \<Rightarrow> Inl (AttributeError, db)
            | Some ix \<Rightarrow>
                (case faiss_train ix a of
                   Inl e \<Rightarrow> Inl (e, db)
                 | Inr ix' \<Rightarrow> Inr (db\<lparr>index := Some ix', is_trained := True\<rparr>)))
         else Inr (db\<lparr>index := Some (IndexFlatIP (dimension db) [])\<rparr>))
      else Inr db)"

definition add_documents :: "'m vdb \<Rightarrow> ndarray \<Rightarrow> 'm list \<Rightarrow> py_error \<times> 'm vdb + 'm vdb" where
  "add_documents db embeddings md =
     (if shape1 embeddings \<noteq> dimension db then Inl (ValueError, db)
      else
        (let a = normalize_L2 embeddings in
         case train_step db a of
           Inl failure \<Rightarrow> Inl failure
         | Inr db1 \<Rightarrow>
             (case index db1 of
                None \<Rightarrow> Inl (AttributeError, db1)
              | Some ix \<Rightarrow>
                  (case faiss_add ix a of
                     Inl e \<Rightarrow> Inl (e, db1)
                   | Inr ix' \<Rightarrow> Inr (db1\<lparr>index := Some ix', metadata := metadata db1 @ md\<rparr>)))))"

record 'm search_result =
  result_metadata :: 'm
  similarity_score :: real
  result_index :: int

text \<open>The loop of \<open>search\<close> over \<open>zip(scores[0], indices[0])\<close>.\<close>

fun collect :: "'m list \<Rightarrow> real \<Rightarrow> (real \<times> int) list \<Rightarrow> py_error + 'm search_result list" where
  "collect md threshold [] = Inr []"
| "collect md threshold ((score, idx) # hits) =
     (if idx \<noteq> - 1 \<and> threshold \<le> score then
        (case py_getitem md idx of
           Inl e \<Rightarrow> Inl e
         | Inr m \<Rightarrow>
             (case collect md threshold hits of
                Inl e \<Rightarrow> Inl e
              | Inr rs \<Rightarrow>
                  Inr (\<lparr>result_metadata = m, similarity_score = score, result_index = idx\<rparr> # rs)))
      else collect md threshold hits)"

definition search ::
  "(vec \<Rightarrow> nat \<Rightarrow> bool) \<Rightarrow> 'm vdb \<Rightarrow> vec \<Rightarrow> nat \<Rightarrow> real \<Rightarrow> py_error + 'm search_result list" where
  "search visit db query_embedding k threshold =
     (case index db of
        None \<Rightarrow> Inl AttributeError
      | Some ix \<Rightarrow>
          if ntotal ix = 0 then Inr []
          else
            (case faiss_search visit ix (normalize_row query_embedding) k of
               Inl e \<Rightarrow> Inl e
             | Inr hits \<Rightarrow> collect (metadata db) threshold hits))"

record stats =
  total_documents :: nat
  stats_index_type :: index_type
  stats_dimension :: nat
  stats_is_trained :: bool
  index_size_mb :: real

definition get_stats :: "'m vdb \<Rightarrow> stats" where
  "get_stats db =
     \<lparr>total_documents = length (metadata db),
      stats_index_type = index_type db,
      stats_dimension = dimension db,
      stats_is_trained = is_trained db,
      index_size_mb =
        (case index db of
           None \<Rightarrow> 0
         | Some ix \<Rightarrow> real (ntotal ix * dimension db * 4) / (1024 * 1024))\<rparr>"

text \<open>
  The lockstep invariant of the specification: there is an index, and the metadata table
  has as many entries as the index has vectors.
\<close>

definition lockstep :: "'m vdb \<Rightarrow> bool" where
  "lockstep db =
     (case index db of None \<Rightarrow> False | Some ix \<Rightarrow> length (metadata db) = ntotal ix)"

text \<open>
  The manager that a new IVF manager of dimension \<open>d\<close> becomes after a first batch below
  the training threshold: its index is an exact \<open>IndexFlatIP\<close> over the normalised rows,
  while \<open>index_type\<close> and \<open>is_trained\<close> keep their values.
\<close>

definition fallen :: "nat \<Rightarrow> ndarray \<Rightarrow> 'm list \<Rightarrow> 'm vdb" where
  "fallen d embeddings md =
     \<lparr>dimension = d, index_type = IVF,
      index = Some (IndexFlatIP d (map normalize_row (rows embeddings))),
      metadata = md, is_trained = False\<rparr>"

text \<open>
  The managers that the constructor and calls of \<open>add_documents\<close> produce, whether the
  calls return or raise, and the shape that an untrained IVF manager has among them: the
  index of the constructor, with no metadata, or an exact index.
\<close>

inductive reachable :: "'m vdb \<Rightarrow> bool" where
  created: "reachable (init d t)"
| added: "reachable db \<Longrightarrow> add_documents db embeddings md = Inr db' \<Longrightarrow> reachable db'"
| raised: "reachable db \<Longrightarrow> add_documents db embeddings md = Inl (e, db') \<Longrightarrow> reachable db'"

definition untrained_shape :: "'m vdb \<Rightarrow> bool" where
  "untrained_shape db =
     (index_type db = IVF \<and> \<not> is_trained db \<longrightarrow>
        (index db = Some (IndexIVFFlat (dimension db) False []) \<and> metadata db = [])
        \<or> (\<exists>vs. index db = Some (IndexFlatIP (dimension db) vs)))"

section \<open>Python strings\<close>

text \<open>
  \<open>ascii\<close> writes a string literal of the source that has only ASCII characters; the
  other literals are given by their code points.  \<open>str.lower\<close>, \<open>str.strip\<close> and the regular
  expression class \<open>\w\<close> depend on the Unicode character database, which is a parameter
  of the model.
\<close>

definition ascii :: "string \<Rightarrow> str" where
  "ascii s = map of_char s"

record unicode =
  str_lower :: "str \<Rightarrow> str"
  chr_isspace :: "nat \<Rightarrow> bool"
  chr_isword :: "nat \<Rightarrow> bool"

text \<open>The character database restricted to ASCII, for evaluating the model on ASCII text.\<close>

definition ascii_db :: unicode where
  "ascii_db =
     \<lparr>str_lower = map (\<lambda>c. if 65 \<le> c \<and> c \<le> 90 then c + 32 else c),
      chr_isspace = (\<lambda>c. c = 32 \<or> (9 \<le> c \<and> c \<le> 13) \<or> (28 \<le> c \<and> c \<le> 31)),
      chr_isword = (\<lambda>c. (48 \<le> c \<and> c \<le> 57) \<or> (65 \<le> c \<and> c \<le> 90) \<or> c = 95
                       \<or> (97 \<le> c \<and> c \<le> 122))\<rparr>"

text \<open>\<open>sub in s\<close> on strings: \<open>sub\<close> occurs in \<open>s\<close> as a contiguous block.\<close>

fun py_in :: "'a list \<Rightarrow> 'a list \<Rightarrow> bool" where
  "py_in sub [] = (sub = [])"
| "py_in sub (c # cs) = (take (length sub) (c # cs) = sub \<or> py_in sub cs)"

fun py_join :: "'a list \<Rightarrow> 'a list list \<Rightarrow> 'a list" where
  "py_join sep [] = []"
| "py_join sep [x] = x"
| "py_join sep (x # y # ys) = x @ sep @ py_join sep (y # ys)"

section \<open>\<open>mongodb_sync.py\<close>: class \<open>RecipeSearchOptimizer\<close>\<close>

text \<open>
  A recipe document, with the fields that the search strategies read; \<open>None\<close> is a
  missing key.  A result is the recipe with its \<open>match_type\<close> and, for a semantic match,
  its \<open>similarity_score\<close>.
\<close>

record recipe =
  rcp_id :: "str option"
  rcp_name :: "str option"
  rcp_ingredients :: "str list option"
  rcp_category :: "str option"

datatype match_type = ExactName | Ingredient | Category | Semantic

record hit =
  hit_recipe :: recipe
  match_type :: match_type
  hit_similarity :: "real option"

definition hit_id :: "hit \<Rightarrow> str option" where
  "hit_id h = rcp_id (hit_recipe h)"

definition tagged :: "match_type \<Rightarrow> recipe \<Rightarrow> hit" where
  "tagged t r = \<lparr>hit_recipe = r, match_type = t, hit_similarity = None\<rparr>"

definition exact_match_search :: "unicode \<Rightarrow> str \<Rightarrow> recipe list \<Rightarrow> hit list" where
  "exact_match_search U query recipes =
     (let query_lower = str_lower U query in
      map (tagged ExactName)
        (filter (\<lambda>r. case rcp_name r of
                        None \<Rightarrow> False
                      | Some n \<Rightarrow> n \<noteq> [] \<and> py_in query_lower (str_lower U n))
           recipes))"

definition ingredient_based_search :: "unicode \<Rightarrow> str \<Rightarrow> recipe list \<Rightarrow> hit list" where
  "ingredient_based_search U query recipes =
     (let query_lower = str_lower U query in
      map (tagged Ingredient)
        (filter (\<lambda>r. case rcp_ingredients r of
                        None \<Rightarrow> False
                      | Some ing \<Rightarrow>
                          ing \<noteq> [] \<and> py_in query_lower (str_lower U (py_join [32] ing)))
           recipes))"

definition category_keywords :: "(str \<times> str) list" where
  "category_keywords =
     [([109, 243, 110, 32, 99, 104, 237, 110, 104], ascii ''monchinh''),
      ([109, 243, 110, 32, 112, 104, 7909], ascii ''monphu''),
      ([116, 114, 225, 110, 103, 32, 109, 105, 7879, 110, 103], ascii ''trangmieng''),
      ([273, 7891, 32, 117, 7889, 110, 103], ascii ''douong''),
      ([259, 110, 32, 118, 7863, 116], ascii ''anvat'')]"

definition category_filter_search :: "unicode \<Rightarrow> str \<Rightarrow> recipe list \<Rightarrow> hit list" where
  "category_filter_search U query recipes =
     (let query_lower = str_lower U query in
      case List.find (\<lambda>kc. py_in (fst kc) query_lower) category_keywords of
        None \<Rightarrow> []
      | Some kc \<Rightarrow>
          map (tagged Category) (filter (\<lambda>r. rcp_category r = Some (snd kc)) recipes))"

text \<open>
  \<open>_semantic_search\<close>: \<open>encode\<close> is \<open>model.encode\<close> on one string; \<open>numpy.dot\<close> raises
  \<open>ValueError\<close> when the widths differ.  \<open>list.sort(reverse=True)\<close> is stable.
\<close>

definition semantic_search ::
  "(str \<Rightarrow> vec) \<Rightarrow> str \<Rightarrow> recipe list \<Rightarrow> ndarray \<Rightarrow> real \<Rightarrow> py_error + hit list" where
  "semantic_search encode query recipes embeddings threshold =
     (if length recipes \<noteq> length (rows embeddings) then Inr []
      else
        (let query_embedding = encode query in
         if shape1 embeddings \<noteq> length query_embedding then Inl ValueError
         else
           (let similarities = map (\<lambda>row. inner_product row query_embedding) (rows embeddings);
                results = filter (\<lambda>rs. threshold \<le> snd rs) (zip recipes similarities)
            in Inr (map (\<lambda>rs. \<lparr>hit_recipe = fst rs, match_type = Semantic,
                                 hit_similarity = Some (snd rs)\<rparr>)
                      (sort_key (\<lambda>rs. - snd rs) results)))))"

text \<open>The loop that removes duplicates: \<open>seen_ids\<close> and \<open>unique_results\<close> are its state.\<close>

definition dedup_step :: "hit \<Rightarrow> str option set \<times> hit list \<Rightarrow> str option set \<times> hit list" where
  "dedup_step result st =
     (let recipe_id = hit_id result in
      if recipe_id \<notin> fst st then (insert recipe_id (fst st), snd st @ [result]) else st)"

definition multi_strategy_search ::
  "unicode \<Rightarrow> str \<Rightarrow> recipe list \<Rightarrow> ndarray option \<Rightarrow> (str \<Rightarrow> vec) option
     \<Rightarrow> py_error + hit list" where
  "multi_strategy_search U query recipes embeddings model =
     (let exact_results = exact_match_search U query recipes;
          ingredient_results = ingredient_based_search U query recipes;
          category_results = category_filter_search U query recipes
      in case (case (embeddings, model) of
                 (Some e, Some m) \<Rightarrow> semantic_search m query recipes e (7 / 10)
               | _ \<Rightarrow> Inr []) of
           Inl err \<Rightarrow> Inl err
         | Inr semantic_results \<Rightarrow>
             (let all_results =
                    exact_results @ ingredient_results @ category_results @ semantic_results;
                  unique_results = snd (fold dedup_step all_results ({}, []))
              in Inr (take 10 unique_results)))"

text \<open>
  The merge in the words of the specification: of the concatenated list, keep each
  element whose identifier no earlier element has.
\<close>

definition first_occurrences :: "('a \<Rightarrow> 'k) \<Rightarrow> 'a list \<Rightarrow> 'a list" where
  "first_occurrences key xs =
     map (\<lambda>i. xs ! i) (filter (\<lambda>i. key (xs ! i) \<notin> key ` set (take i xs)) [0..<length xs])"

definition semantic_part ::
  "str \<Rightarrow> recipe list \<Rightarrow> ndarray option \<Rightarrow> (str \<Rightarrow> vec) option \<Rightarrow> py_error + hit list" where
  "semantic_part query recipes embeddings model =
     (case (embeddings, model) of
        (Some e, Some m) \<Rightarrow> semantic_search m query recipes e (7 / 10)
      | _ \<Rightarrow> Inr [])"

text \<open>
  The same selection by recursion, with the set of identifiers already seen; it links the
  loop to \<open>first_occurrences\<close>.
\<close>

fun firsts :: "('a \<Rightarrow> 'k) \<Rightarrow> 'k set \<Rightarrow> 'a list \<Rightarrow> 'a list" where
  "firsts key seen [] = []"
| "firsts key seen (x # xs) =
     (if key x \<in> seen then firsts key seen xs else x # firsts key (insert (key x) seen) xs)"

text \<open>Two recipes with ASCII text, for evaluating the strategies.\<close>

definition pho_bo :: recipe where
  "pho_bo = \<lparr>rcp_id = Some (ascii ''1''), rcp_name = Some (ascii ''Pho Bo''),
     rcp_ingredients = Some [ascii ''thit bo'', ascii ''banh pho''],
     rcp_category = Some (ascii ''monchinh'')\<rparr>"

definition bun_cha :: recipe where
  "bun_cha = \<lparr>rcp_id = Some (ascii ''2''), rcp_name = Some (ascii ''Bun Cha''),
     rcp_ingredients = Some [ascii ''bun'', ascii ''cha''],
     rcp_category = Some (ascii ''monchinh'')\<rparr>"

section \<open>\<open>confidence_scorer.py\<close>: class \<open>AdvancedConfidenceScorer\<close>\<close>

text \<open>
  A retrieved document is a dictionary; the record has the keys that the scorer reads, a
  missing string or list being the empty one (the default of every \<open>doc.get\<close> in the
  source).  \<open>doc.get('type')\<close> is compared with \<open>'recipe'\<close> and \<open>'faq'\<close> only.

  \<open>createdAt\<close> is read inside a \<open>try\<close> block whose handler supplies a default:
  \<^item> \<open>NoTimestamp\<close>: the key is missing or its value is falsy;
  \<^item> \<open>Naive t\<close>: a \<open>datetime\<close> without time zone, or a string that \<open>fromisoformat\<close> reads as
    one, \<open>t\<close> being its distance in microseconds from a fixed origin;
  \<^item> \<open>Unusable\<close>: any value on which the block raises (a string that \<open>fromisoformat\<close>
    rejects; a value with a time zone, which cannot be subtracted from \<open>datetime.now()\<close>).
  \<open>datetime.now()\<close> is the parameter \<open>now\<close>, in the same unit.
\<close>

datatype doc_kind = Recipe | Faq | OtherKind

datatype created_at = NoTimestamp | Unusable | Naive int

record doc =
  doc_type :: doc_kind
  doc_name :: str
  doc_searchable_text :: str
  doc_question :: str
  doc_answer :: str
  doc_created :: created_at
  doc_ingredients :: "str list"
  doc_instructions :: "str list"

datatype confidence_level = VERY_HIGH | HIGH | MEDIUM | LOW | VERY_LOW

record confidence_score =
  cs_overall_score :: real
  cs_level :: confidence_level
  cs_factors :: "(str \<times> real) list"
  cs_explanation :: str
  cs_recommendations :: "str list"

text \<open>The dictionaries of \<open>__init__\<close>, in the order of their keys.\<close>

definition weights :: "(str \<times> real) list" where
  "weights =
     [(ascii ''semantic_similarity'', 0.25),
      (ascii ''keyword_match'', 0.2),
      (ascii ''context_relevance'', 0.15),
      (ascii ''data_freshness'', 0.1),
      (ascii ''source_reliability'', 0.1),
      (ascii ''query_clarity'', 0.1),
      (ascii ''answer_completeness'', 0.1)]"

definition cooking_keywords :: "(str \<times> str list) list" where
  "cooking_keywords =
     [(ascii ''ingredients'',
       [[110, 103, 117, 121, 234, 110, 32, 108, 105, 7879, 117],
        [116, 104, 224, 110, 104, 32, 112, 104, 7847, 110],
        [103, 105, 97, 32, 118, 7883], [114, 97, 117, 32, 99, 7911],
        [116, 104, 7883, 116], [99, 225]]),
      (ascii ''cooking_methods'',
       [[110, 7845, 117], [99, 104, 105, 234, 110], [108, 117, 7897, 99],
        [110, 432, 7899, 110, 103], [120, 224, 111], [104, 7845, 112],
        ascii ''om'', ascii ''kho'']),
      (ascii ''time_related'',
       [[116, 104, 7901, 105, 32, 103, 105, 97, 110], [112, 104, 250, 116],
        [103, 105, 7901], ascii ''nhanh'', [99, 104, 7853, 109],
        [108, 226, 117]]),
      (ascii ''difficulty'',
       [[100, 7877], [107, 104, 243],
        [273, 417, 110, 32, 103, 105, 7843, 110],
        [112, 104, 7913, 99, 32, 116, 7841, 112],
        [99, 417, 32, 98, 7843, 110], [110, 226, 110, 103, 32, 99, 97, 111]]),
      (ascii ''taste'',
       [ascii ''ngon'', [110, 103, 7885, 116], [109, 7863, 110],
        ascii ''chua'', ascii ''cay'', [273, 7855, 110, 103], [98, 233, 111]]),
      (ascii ''nutrition'',
       [[100, 105, 110, 104, 32, 100, 432, 7905, 110, 103], ascii ''vitamin'',
        ascii ''protein'', ascii ''carb'',
        [99, 104, 7845, 116, 32, 98, 233, 111], ascii ''calo''])]"

subsection \<open>NumPy\<close>

text \<open>
  \<open>numpy.mean\<close> of a non-empty list, and \<open>numpy.average\<close> with weights, which raises when
  the shapes differ or the weights sum to zero.
\<close>

definition np_mean :: "real list \<Rightarrow> real" where
  "np_mean xs = sum_list xs / real (length xs)"

definition np_average :: "real list \<Rightarrow> real list \<Rightarrow> py_error + real" where
  "np_average a w =
     (if length a \<noteq> length w then Inl TypeError
      else if sum_list w = 0 then Inl ZeroDivisionError
      else Inr (sum_list (map2 (*) a w) / sum_list w))"

subsection \<open>The seven factors\<close>

definition calculate_semantic_similarity :: "real list \<Rightarrow> py_error + real" where
  "calculate_semantic_similarity similarity_scores =
     (if similarity_scores = [] then Inr 0
      else
        (let decay = map (\<lambda>i. exp (- real i * 0.5)) [0..<length similarity_scores];
             normalized = map (\<lambda>w. w / sum_list decay) decay
         in case np_average similarity_scores normalized of
              Inl e \<Rightarrow> Inl e
            | Inr weighted_avg \<Rightarrow>
                (let sigmoid_score = 2 / (1 + exp (- 4 * (weighted_avg - 0.5)))
                 in Inr (min sigmoid_score 1))))"

text \<open>\<open>re.findall(r'\b\w+\b', s)\<close>: the maximal blocks of word characters, from the left.\<close>

fun findall_words :: "(nat \<Rightarrow> bool) \<Rightarrow> str \<Rightarrow> str \<Rightarrow> str list" where
  "findall_words isword cur [] = (if cur = [] then [] else [cur])"
| "findall_words isword cur (c # cs) =
     (if isword c then findall_words isword (cur @ [c]) cs
      else if cur = [] then findall_words isword [] cs
      else cur # findall_words isword [] cs)"

definition word_set :: "unicode \<Rightarrow> str \<Rightarrow> str set" where
  "word_set U s = set (findall_words (chr_isword U) [] s)"

definition keyword_doc_text :: "doc \<Rightarrow> str" where
  "keyword_doc_text d =
     (case doc_type d of
        Recipe \<Rightarrow> doc_name d @ [32] @ doc_searchable_text d
      | Faq \<Rightarrow> doc_question d @ [32] @ doc_answer d
      | OtherKind \<Rightarrow> [])"

definition calculate_keyword_match :: "unicode \<Rightarrow> str \<Rightarrow> doc list \<Rightarrow> real" where
  "calculate_keyword_match U query docs =
     (if docs = [] then 0
      else
        (let query_words = word_set U (str_lower U query);
             total_possible = card query_words;
             total_matches =
               sum_list (map (\<lambda>d. card (query_words
                                 \<inter> word_set U (str_lower U (keyword_doc_text d)))) docs)
         in if total_possible = 0 then 0
            else min ((real total_matches / real (length docs)) / real total_possible) 1))"

definition cong_thuc :: str where
  \<comment> \<open>cong thuc\<close>
  "cong_thuc =
     [99, 244, 110, 103, 32, 116, 104, 7913, 99]"

definition cach_lam :: str where
  \<comment> \<open>cach lam\<close>
  "cach_lam =
     [99, 225, 99, 104, 32, 108, 224, 109]"

definition nguyen_lieu :: str where
  \<comment> \<open>nguyen lieu\<close>
  "nguyen_lieu =
     [110, 103, 117, 121, 234, 110, 32, 108, 105, 7879, 117]"

definition faq_question_words :: "str list" where
  \<comment> \<open>tai sao, lam sao, nhu the nao, co nen\<close>
  "faq_question_words =
     [[116, 7841, 105, 32, 115, 97, 111], [108, 224, 109, 32, 115, 97, 111],
      [110, 104, 432, 32, 116, 104, 7871, 32, 110, 224, 111],
      [99, 243, 32, 110, 234, 110]]"

definition context_doc_text :: "unicode \<Rightarrow> doc \<Rightarrow> str" where
  "context_doc_text U d =
     (case doc_type d of
        Recipe \<Rightarrow> str_lower U (doc_searchable_text d)
      | Faq \<Rightarrow> str_lower U (doc_question d @ [32] @ doc_answer d)
      | OtherKind \<Rightarrow> [])"

text \<open>The body of the loop over the documents: the score of one document, capped.\<close>

definition doc_relevance :: "unicode \<Rightarrow> str \<Rightarrow> doc \<Rightarrow> real" where
  "doc_relevance U query_lower d =
     (let categories =
            fold (\<lambda>entry score.
                    if list_ex (\<lambda>keyword. py_in keyword query_lower) (snd entry)
                       \<and> list_ex (\<lambda>keyword. py_in keyword (context_doc_text U d)) (snd entry)
                    then score + 0.2 else score)
              cooking_keywords 0;
          with_recipe =
            (if (py_in cong_thuc query_lower \<or> py_in cach_lam query_lower)
                \<and> doc_type d = Recipe
             then categories + 0.3 else categories);
          with_faq =
            (if list_ex (\<lambda>word. py_in word query_lower) faq_question_words
                \<and> doc_type d = Faq
             then with_recipe + 0.3 else with_recipe)
      in min with_faq 1)"

definition calculate_context_relevance :: "unicode \<Rightarrow> str \<Rightarrow> doc list \<Rightarrow> real" where
  "calculate_context_relevance U query docs =
     (if docs = [] then 0
      else np_mean (map (doc_relevance U (str_lower U query)) docs))"

text \<open>
  \<open>(current_time - created_time).days\<close> is the floor of the difference in days, negative
  when the document is dated after \<open>now\<close>.
\<close>

definition doc_freshness :: "int \<Rightarrow> doc \<Rightarrow> real" where
  "doc_freshness now d =
     (if doc_type d = Recipe then
        (case doc_created d of
           NoTimestamp \<Rightarrow> 0.7
         | Unusable \<Rightarrow> 0.7
         | Naive created_time \<Rightarrow>
             (let days_old = (now - created_time) div 86400000000
              in max 0 (1 - real_of_int days_old / 365)))
      else 0.8)"

definition calculate_data_freshness :: "int \<Rightarrow> doc list \<Rightarrow> real" where
  "calculate_data_freshness now docs =
     (if docs = [] then 0.5 else np_mean (map (doc_freshness now) docs))"

definition doc_reliability :: "doc \<Rightarrow> real" where
  "doc_reliability d =
     (case doc_type d of
        Recipe \<Rightarrow>
          (let complete =
                 (if doc_ingredients d \<noteq> [] \<and> doc_instructions d \<noteq> [] then 0.8 + 0.1
                  else 0.8);
               detailed =
                 (if 3 \<le> length (doc_instructions d) then complete + 0.1 else complete)
           in min detailed 1)
      | Faq \<Rightarrow> min (if 50 < length (doc_answer d) then 0.9 + 0.1 else 0.9) 1
      | OtherKind \<Rightarrow> min 0.5 1)"

definition calculate_source_reliability :: "doc list \<Rightarrow> real" where
  "calculate_source_reliability docs =
     (if docs = [] then 0.5 else np_mean (map doc_reliability docs))"

definition py_strip :: "unicode \<Rightarrow> str \<Rightarrow> str" where
  "py_strip U s = rev (dropWhile (chr_isspace U) (rev (dropWhile (chr_isspace U) s)))"

definition specific_words :: "str list" where
  \<comment> \<open>cach lam, cong thuc, nguyen lieu, thoi gian, lam sao\<close>
  "specific_words =
     [[99, 225, 99, 104, 32, 108, 224, 109],
      [99, 244, 110, 103, 32, 116, 104, 7913, 99],
      [110, 103, 117, 121, 234, 110, 32, 108, 105, 7879, 117],
      [116, 104, 7901, 105, 32, 103, 105, 97, 110],
      [108, 224, 109, 32, 115, 97, 111]]"

definition question_words :: "str list" where
  \<comment> \<open>gi, sao, nao, bao nhieu, nhu the nao\<close>
  "question_words =
     [[103, 236], ascii ''sao'', [110, 224, 111],
      [98, 97, 111, 32, 110, 104, 105, 234, 117],
      [110, 104, 432, 32, 116, 104, 7871, 32, 110, 224, 111]]"

definition calculate_query_clarity :: "unicode \<Rightarrow> str \<Rightarrow> real" where
  "calculate_query_clarity U query =
     (let query_lower = py_strip U (str_lower U query) in
      if length query_lower < 5 then 0.2
      else
        (let n = length query_lower;
             by_length = (if 10 \<le> n \<and> n \<le> 50 then 0.5 + 0.2
                          else if 50 < n then 0.5 + 0.1 else 0.5);
             by_specific = (if list_ex (\<lambda>word. py_in word query_lower) specific_words
                            then by_length + 0.2 else by_length);
             by_question = (if list_ex (\<lambda>word. py_in word query_lower) question_words
                            then by_specific + 0.1 else by_specific);
             by_mark = (if query_lower \<noteq> [] \<and> last query_lower = 63
                        then by_question + 0.1 else by_question)
         in min by_mark 1))"

definition structure_markers :: "str list" where
  \<comment> \<open>1., 2., -, (bullet)\<close>
  "structure_markers =
     [ascii ''1.'', ascii ''2.'', ascii ''-'', [8226]]"

definition step_words :: "str list" where
  \<comment> \<open>buoc, cach, lam\<close>
  "step_words =
     [[98, 432, 7899, 99], [99, 225, 99, 104], [108, 224, 109]]"

definition calculate_answer_completeness :: "unicode \<Rightarrow> str \<Rightarrow> str \<Rightarrow> real" where
  "calculate_answer_completeness U query answer =
     (if answer = [] \<or> length answer < 10 then 0.1
      else
        (let n = length answer;
             by_length = (if 50 \<le> n \<and> n \<le> 500 then 0.5 + 0.2
                          else if 500 < n then 0.5 + 0.1 else 0.5);
             by_structure = (if list_ex (\<lambda>marker. py_in marker answer) structure_markers
                             then by_length + 0.1 else by_length);
             query_lower = str_lower U query;
             answer_lower = str_lower U answer;
             by_recipe =
               (if py_in cach_lam query_lower \<or> py_in cong_thuc query_lower then
                  (let with_ingredients =
                         (if py_in nguyen_lieu answer_lower then by_structure + 0.1
                          else by_structure)
                   in if list_ex (\<lambda>word. py_in word answer_lower) step_words
                      then with_ingredients + 0.1 else with_ingredients)
                else by_structure)
         in min by_recipe 1))"

subsection \<open>Level, explanation, recommendations\<close>

definition get_confidence_level :: "real \<Rightarrow> confidence_level" where
  "get_confidence_level score =
     (if 0.9 \<le> score then VERY_HIGH
      else if 0.7 \<le> score then HIGH
      else if 0.5 \<le> score then MEDIUM
      else if 0.3 \<le> score then LOW
      else VERY_LOW)"

definition overall_label :: str where
  \<comment> \<open>Diem tin cay tong the:\<close>
  "overall_label =
     [272, 105, 7875, 109, 32, 116, 105, 110, 32, 99, 7853, 121, 32, 116,
      7893, 110, 103, 32, 116, 104, 7875, 58, 32]"

definition strongest_label :: str where
  \<comment> \<open>Yeu to manh nhat:\<close>
  "strongest_label =
     [89, 7871, 117, 32, 116, 7889, 32, 109, 7841, 110, 104, 32, 110, 104,
      7845, 116, 58, 32]"

definition weakest_label :: str where
  \<comment> \<open>Yeu to yeu nhat:\<close>
  "weakest_label =
     [89, 7871, 117, 32, 116, 7889, 32, 121, 7871, 117, 32, 110, 104, 7845,
      116, 58, 32]"

text \<open>
  \<open>fmt\<close> is the formatting of a float by \<open>:.2f\<close>.  \<open>sorted(..., reverse=True)\<close> is stable:
  factors of equal value stay in the order of the dictionary.
\<close>

definition generate_explanation ::
  "(real \<Rightarrow> str) \<Rightarrow> (str \<times> real) list \<Rightarrow> real \<Rightarrow> py_error + str" where
  "generate_explanation fmt factors overall_score =
     (let sorted_factors = sort_key (\<lambda>x. - snd x) factors in
      case py_getitem sorted_factors 0 of
        Inl e \<Rightarrow> Inl e
      | Inr strongest \<Rightarrow>
          (case py_getitem sorted_factors (- 1) of
             Inl e \<Rightarrow> Inl e
           | Inr weakest \<Rightarrow>
               (let explanations =
                      [overall_label @ fmt overall_score,
                       strongest_label @ fst strongest @ ascii '' ('' @ fmt (snd strongest)
                         @ ascii '')'',
                       weakest_label @ fst weakest @ ascii '' ('' @ fmt (snd weakest)
                         @ ascii '')'']
                in Inr (py_join (ascii '' | '') explanations))))"

text \<open>
  The format \<open>:.2f\<close> on the idealised reals: an optional sign, the integer part in
  decimal, a point and two decimals, rounded to the nearest hundredth, a half to the even
  one.  \<open>decimal\<close> takes a bound on the number of digits.
\<close>

fun decimal :: "nat \<Rightarrow> nat \<Rightarrow> str" where
  "decimal 0 n = [48 + n mod 10]"
| "decimal (Suc bound) n =
     (if n < 10 then [48 + n] else decimal bound (n div 10) @ [48 + n mod 10])"

definition round_half_even :: "real \<Rightarrow> nat" where
  "round_half_even y =
     (let f = nat \<lfloor>y\<rfloor>; r = y - real f
      in if r < 1 / 2 then f else if 1 / 2 < r then f + 1 else if even f then f else f + 1)"

definition format_2f :: "real \<Rightarrow> str" where
  "format_2f v =
     (let n = round_half_even (\<bar>v\<bar> * 100)
      in (if v < 0 then ascii ''-'' else [])
         @ decimal n (n div 100) @ ascii ''.'' @ [48 + (n mod 100) div 10, 48 + n mod 10])"

text \<open>\<open>d[key]\<close> on a dictionary.\<close>

definition py_lookup :: "('k \<times> 'v) list \<Rightarrow> 'k \<Rightarrow> py_error + 'v" where
  "py_lookup d key = (case map_of d key of None \<Rightarrow> Inl KeyError | Some v \<Rightarrow> Inr v)"

definition advice_keywords :: str where
  \<comment> \<open>Thu dat cau hoi voi tu khoa cu the hon\<close>
  "advice_keywords =
     [84, 104, 7917, 32, 273, 7863, 116, 32, 99, 226, 117, 32, 104, 7887, 105,
      32, 118, 7899, 105, 32, 116, 7915, 32, 107, 104, 243, 97, 32, 99, 7909,
      32, 116, 104, 7875, 32, 104, 417, 110]"

definition advice_terms :: str where
  \<comment> \<open>Su dung thuat ngu nau an chinh xac hon\<close>
  "advice_terms =
     [83, 7917, 32, 100, 7909, 110, 103, 32, 116, 104, 117, 7853, 116, 32,
      110, 103, 7919, 32, 110, 7845, 117, 32, 259, 110, 32, 99, 104, 237, 110,
      104, 32, 120, 225, 99, 32, 104, 417, 110]"

definition advice_details :: str where
  \<comment> \<open>Lam ro cau hoi voi chi tiet cu the\<close>
  "advice_details =
     [76, 224, 109, 32, 114, 245, 32, 99, 226, 117, 32, 104, 7887, 105, 32,
      118, 7899, 105, 32, 99, 104, 105, 32, 116, 105, 7871, 116, 32, 99, 7909,
      32, 116, 104, 7875]"

definition advice_medium :: str where
  \<comment> \<open>Ket qua kha tot, co the can them thong tin de chinh xac hon\<close>
  "advice_medium =
     [75, 7871, 116, 32, 113, 117, 7843, 32, 107, 104, 225, 32, 116, 7889,
      116, 44, 32, 99, 243, 32, 116, 104, 7875, 32, 99, 7847, 110, 32, 116,
      104, 234, 109, 32, 116, 104, 244, 110, 103, 32, 116, 105, 110, 32, 273,
      7875, 32, 99, 104, 237, 110, 104, 32, 120, 225, 99, 32, 104, 417, 110]"

definition advice_high :: str where
  \<comment> \<open>Ket qua co do tin cay cao\<close>
  "advice_high =
     [75, 7871, 116, 32, 113, 117, 7843, 32, 99, 243, 32, 273, 7897, 32, 116,
      105, 110, 32, 99, 7853, 121, 32, 99, 97, 111]"

definition generate_recommendations ::
  "(str \<times> real) list \<Rightarrow> confidence_level \<Rightarrow> py_error + str list" where
  "generate_recommendations factors level =
     (if level = LOW \<or> level = VERY_LOW then
        (case py_lookup factors (ascii ''semantic_similarity'') of
           Inl e \<Rightarrow> Inl e
         | Inr semantic \<Rightarrow>
             (case py_lookup factors (ascii ''keyword_match'') of
                Inl e \<Rightarrow> Inl e
              | Inr keyword \<Rightarrow>
                  (case py_lookup factors (ascii ''query_clarity'') of
                     Inl e \<Rightarrow> Inl e
                   | Inr clarity \<Rightarrow>
                       Inr ((if semantic < 0.5 then [advice_keywords] else [])
                            @ (if keyword < 0.5 then [advice_terms] else [])
                            @ (if clarity < 0.5 then [advice_details] else [])))))
      else if level = MEDIUM then Inr [advice_medium]
      else Inr [advice_high])"

subsection \<open>\<open>calculate_confidence\<close>\<close>

text \<open>\<open>sum(factors[f] * self.weights[f] for f in factors)\<close>.\<close>

fun weighted_sum :: "(str \<times> real) list \<Rightarrow> (str \<times> real) list \<Rightarrow> py_error + real" where
  "weighted_sum ws [] = Inr 0"
| "weighted_sum ws (fv # rest) =
     (case py_lookup ws (fst fv) of
        Inl e \<Rightarrow> Inl e
      | Inr w \<Rightarrow>
          (case weighted_sum ws rest of
             Inl e \<Rightarrow> Inl e
           | Inr s \<Rightarrow> Inr (snd fv * w + s)))"

definition calculate_confidence ::
  "unicode \<Rightarrow> (real \<Rightarrow> str) \<Rightarrow> int \<Rightarrow> str \<Rightarrow> doc list \<Rightarrow> real list \<Rightarrow> str
     \<Rightarrow> py_error + confidence_score" where
  "calculate_confidence U fmt now query retrieved_docs similarity_scores answer =
     (case calculate_semantic_similarity similarity_scores of
        Inl e \<Rightarrow> Inl e
      | Inr semantic \<Rightarrow>
          (let factors =
                 [(ascii ''semantic_similarity'', semantic),
                  (ascii ''keyword_match'', calculate_keyword_match U query retrieved_docs),
                  (ascii ''context_relevance'',
                   calculate_context_relevance U query retrieved_docs),
                  (ascii ''data_freshness'', calculate_data_freshness now retrieved_docs),
                  (ascii ''source_reliability'', calculate_source_reliability retrieved_docs),
                  (ascii ''query_clarity'', calculate_query_clarity U query),
                  (ascii ''answer_completeness'',
                   calculate_answer_completeness U query answer)]
           in case weighted_sum weights factors of
                Inl e \<Rightarrow> Inl e
              | Inr overall_score \<Rightarrow>
                  (let level = get_confidence_level overall_score in
                   case generate_explanation fmt factors overall_score of
                     Inl e \<Rightarrow> Inl e
                   | Inr explanation \<Rightarrow>
                       (case generate_recommendations factors level of
                          Inl e \<Rightarrow> Inl e
                        | Inr recommendations \<Rightarrow>
                            Inr \<lparr>cs_overall_score = overall_score, cs_level = level,
                                 cs_factors = factors, cs_explanation = explanation,
                                 cs_recommendations = recommendations\<rparr>))))"

subsection \<open>The specification's words, and data for evaluation\<close>

text \<open>
  The average of the scores with weight \<open>exp (- i / 2)\<close> at rank \<open>i\<close>, and the logistic
  function of a given steepness and centre.
\<close>

definition decayed_average :: "real list \<Rightarrow> real" where
  "decayed_average xs =
     (\<Sum>i \<leftarrow> [0..<length xs]. xs ! i * exp (- real i / 2))
       / (\<Sum>i \<leftarrow> [0..<length xs]. exp (- real i / 2))"

definition logistic :: "real \<Rightarrow> real \<Rightarrow> real \<Rightarrow> real" where
  "logistic steepness centre x = 1 / (1 + exp (- steepness * (x - centre)))"

text \<open>
  The strongest and the weakest factor with ties settled by the order of encounter in the
  usual sense: of several factors of the largest (smallest) value, the one met first.
\<close>

definition strongest_by_encounter :: "(str \<times> real) list \<Rightarrow> (str \<times> real) option" where
  "strongest_by_encounter factors =
     List.find (\<lambda>x. snd x = Max (snd ` set factors)) factors"

definition weakest_by_encounter :: "(str \<times> real) list \<Rightarrow> (str \<times> real) option" where
  "weakest_by_encounter factors =
     List.find (\<lambda>x. snd x = Min (snd ` set factors)) factors"

text \<open>
  A recipe without text, dated the given number of days after the origin; a recipe named
  ``pho'', dated at the origin; and a factor dictionary with three values at 0.5.
\<close>

definition future_recipe :: "int \<Rightarrow> doc" where
  "future_recipe days =
     \<lparr>doc_type = Recipe, doc_name = [], doc_searchable_text = [], doc_question = [],
      doc_answer = [], doc_created = Naive (days * 86400000000), doc_ingredients = [],
      doc_instructions = []\<rparr>"

definition old_pho :: doc where
  "old_pho =
     \<lparr>doc_type = Recipe, doc_name = ascii ''pho'', doc_searchable_text = [],
      doc_question = [], doc_answer = [], doc_created = Naive 0, doc_ingredients = [],
      doc_instructions = []\<rparr>"

definition half_factors :: "(str \<times> real) list" where
  "half_factors =
     [(ascii ''semantic_similarity'', 0.5), (ascii ''keyword_match'', 0.5),
      (ascii ''context_relevance'', 0), (ascii ''data_freshness'', 0),
      (ascii ''source_reliability'', 0), (ascii ''query_clarity'', 0.5),
      (ascii ''answer_completeness'', 0)]"

section \<open>Properties of the vector index\<close>

lemma normalize_row_unit [simp]:
  "normalize_row [1, 0] = [1, 0]" "normalize_row [0, 1] = [0, 1]"
  by (simp_all add: normalize_row_def inner_product_def)

lemma faiss_add_stored:
  "faiss_add ix a = Inr ix' \<Longrightarrow> stored ix' = stored ix @ rows a \<and> d_of ix' = d_of ix"
  by (cases ix) (auto split: if_splits)

lemma faiss_train_stored:
  "faiss_train ix a = Inr ix' \<Longrightarrow> stored ix' = stored ix \<and> d_of ix' = d_of ix"
  by (cases ix) (auto split: if_splits)

text \<open>
  C8.  When the index holds no vector, \<open>search\<close> returns the empty list, whatever the
  query, \<open>k\<close> and the threshold are; it does not raise.
\<close>

theorem search_empty_index:
  assumes "index db = Some ix" and "ntotal ix = 0"
  shows "search visit db q k threshold = Inr []"
  using assms by (simp add: search_def)

theorem search_empty_index_witness:
  "search (\<lambda>q i. True) (init 2 IVF :: unit vdb) [1, 0] 5 (1 / 2) = Inr []"
  using search_empty_index [of "init 2 IVF :: unit vdb" "IndexIVFFlat 2 False []"]
  by (simp add: init_def create_index_def ntotal_def)

text \<open>
  C7.  A batch whose rows do not have the width of the index is refused with the
  \<open>ValueError\<close> of the shape check (the specification's \<open>DimensionMismatch\<close>), and the
  manager is left as it was: the check precedes every mutation.  All rows of a NumPy array
  have the width \<open>shape[1]\<close>, which is what the source compares.
\<close>

theorem add_documents_dimension_mismatch:
  assumes "wf_ndarray embeddings"
    and "\<exists>v \<in> set (rows embeddings). length v \<noteq> dimension db"
  shows "add_documents db embeddings md = Inl (ValueError, db)"
proof -
  from assms(2) obtain v where v: "v \<in> set (rows embeddings)" "length v \<noteq> dimension db"
    by blast
  from assms(1) v(1) have "length v = shape1 embeddings"
    by (simp add: wf_ndarray_def list_all_iff)
  with v(2) have "shape1 embeddings \<noteq> dimension db"
    by simp
  then show ?thesis
    by (simp add: add_documents_def)
qed

theorem add_documents_dimension_mismatch_witness:
  "add_documents (init 3 Flat :: unit vdb) \<lparr>shape1 = 2, rows = [[1, 0]]\<rparr> [()]
     = Inl (ValueError, init 3 Flat)"
  using add_documents_dimension_mismatch
    [of "\<lparr>shape1 = 2, rows = [[1, 0]]\<rparr>" "init 3 Flat :: unit vdb" "[()]"]
  by (simp add: wf_ndarray_def init_def)

text \<open>
  C3, as stated, fails in two ways.  First, \<open>add_documents\<close> never compares the number of
  rows with the number of metadata entries: one row with no metadata succeeds and leaves
  the table shorter than the index.  Second, an untrained IVF manager replaces its index
  by a new empty one at every batch below 100 rows, so the second small batch discards
  the vectors of the first while their metadata stays.
\<close>

theorem add_documents_lockstep_counterexample:
  "(case add_documents (init 2 Flat :: unit vdb) \<lparr>shape1 = 2, rows = [[1, 0]]\<rparr> [] of
      Inl failure \<Rightarrow> False
    | Inr db \<Rightarrow> \<not> lockstep db)
   \<and>
   (case add_documents (init 2 IVF :: unit vdb) \<lparr>shape1 = 2, rows = [[1, 0]]\<rparr> [()] of
      Inl failure \<Rightarrow> False
    | Inr db1 \<Rightarrow>
        lockstep db1 \<and>
        (case add_documents db1 \<lparr>shape1 = 2, rows = [[0, 1]]\<rparr> [()] of
           Inl failure \<Rightarrow> False
         | Inr db2 \<Rightarrow>
             \<not> lockstep db2 \<and> length (metadata db2) = 2 \<and>
             index db2 = Some (IndexFlatIP 2 [[0, 1]])))"
  by (simp add: add_documents_def train_step_def init_def create_index_def normalize_L2_def
      lockstep_def ntotal_def)

text \<open>
  C3, amended.  If the invariant holds before the call, the batch has as many metadata
  entries as rows, and the call is not a small batch (fewer than 100 rows) for an untrained
  IVF manager that already holds documents, then a successful \<open>add_documents\<close> appends
  the metadata and re-establishes the invariant.
\<close>

theorem add_documents_lockstep:
  assumes "lockstep db"
    and "length (rows embeddings) = length md"
    and "\<not> (index_type db = IVF \<and> \<not> is_trained db \<and> length (rows embeddings) < 100
           \<and> metadata db \<noteq> [])"
    and "add_documents db embeddings md = Inr db'"
  shows "lockstep db' \<and> metadata db' = metadata db @ md"
  using assms
  by (auto simp: add_documents_def train_step_def lockstep_def normalize_L2_def ntotal_def Let_def
      split: if_splits sum.splits option.splits
      dest!: faiss_add_stored faiss_train_stored)

theorem add_documents_lockstep_witness:
  "lockstep \<lparr>dimension = 2, index_type = IVF, index = Some (IndexFlatIP 2 [[1, 0]]),
      metadata = [()], is_trained = False\<rparr>"
  using add_documents_lockstep
    [of "init 2 IVF :: unit vdb" "\<lparr>shape1 = 2, rows = [[1, 0]]\<rparr>" "[()]"
        "\<lparr>dimension = 2, index_type = IVF, index = Some (IndexFlatIP 2 [[1, 0]]),
          metadata = [()], is_trained = False\<rparr>"]
  by (simp add: add_documents_def train_step_def init_def create_index_def normalize_L2_def
      lockstep_def ntotal_def)

subsection \<open>What the library returns, and what the loop of \<open>search\<close> keeps\<close>

lemma length_normalize_row [simp]: "length (normalize_row v) = length v"
  by (simp add: normalize_row_def Let_def)

lemma upt_2: "[0..<2] = [0, Suc 0]"
  by (simp add: upt_rec)

lemma scored_idx:
  "(s, i) \<in> set (scored f seen vs) \<Longrightarrow> 0 \<le> i \<and> i < int (length vs)"
  by (auto simp: scored_def)

lemma pad_idx:
  assumes "(s, i) \<in> set (pad k filler (take k (sort_key g xs)))"
    and "set xs \<subseteq> set (scored f seen vs)"
  shows "i = - 1 \<or> (0 \<le> i \<and> i < int (length vs))"
proof -
  from assms(1) have "(s, i) \<in> set xs \<or> i = - 1"
    by (auto simp: pad_def dest: in_set_takeD)
  with assms(2) have "(s, i) \<in> set (scored f seen vs) \<or> i = - 1"
    by blast
  then show ?thesis
    using scored_idx by blast
qed

lemma length_pad_take: "length (pad k filler (take k hits)) = k"
  by (simp add: pad_def)

lemma faiss_search_length:
  "faiss_search visit ix q k = Inr hits \<Longrightarrow> length hits = k"
  by (cases ix) (auto simp: top_ip_def top_l2_def length_pad_take split: if_splits)

lemma faiss_search_idx:
  "faiss_search visit ix q k = Inr hits \<Longrightarrow> (s, i) \<in> set hits \<Longrightarrow>
     i = - 1 \<or> (0 \<le> i \<and> i < int (ntotal ix))"
proof (cases ix)
  case (IndexFlatIP d vs)
  assume "faiss_search visit ix q k = Inr hits" and "(s, i) \<in> set hits"
  with IndexFlatIP have "(s, i) \<in> set (top_ip vs q k)"
    by (auto split: if_splits)
  then show ?thesis
    unfolding top_ip_def using IndexFlatIP
    by (auto simp: ntotal_def dest!: pad_idx [where f = "inner_product q" and seen = "\<lambda>i. True" and vs = vs])
next
  case (IndexIVFFlat d tr vs)
  assume "faiss_search visit ix q k = Inr hits" and "(s, i) \<in> set hits"
  with IndexIVFFlat have "(s, i) \<in> set (top_l2 visit vs q k)"
    by (auto split: if_splits)
  then show ?thesis
    unfolding top_l2_def using IndexIVFFlat
    by (auto simp: ntotal_def dest!: pad_idx [where f = "l2_sqr q" and seen = "visit q" and vs = vs])
next
  case (IndexHNSWFlat d vs)
  assume "faiss_search visit ix q k = Inr hits" and "(s, i) \<in> set hits"
  with IndexHNSWFlat have "(s, i) \<in> set (top_l2 visit vs q k)"
    by (auto split: if_splits)
  then show ?thesis
    unfolding top_l2_def using IndexHNSWFlat
    by (auto simp: ntotal_def dest!: pad_idx [where f = "l2_sqr q" and seen = "visit q" and vs = vs])
qed

lemma collect_scores:
  "collect md t hits = Inr rs \<Longrightarrow>
     map similarity_score rs = map fst (filter (\<lambda>h. snd h \<noteq> - 1 \<and> t \<le> fst h) hits)"
  by (induction md t hits arbitrary: rs rule: collect.induct)
     (auto split: if_splits sum.splits)

lemma py_getitem_in_range:
  "0 \<le> i \<Longrightarrow> i < int (length xs) \<Longrightarrow> py_getitem xs i = Inr (xs ! nat i)"
  by (simp add: py_getitem_def)

lemma collect_total:
  "\<forall>h \<in> set hits. snd h = - 1 \<or> (0 \<le> snd h \<and> snd h < int (length md)) \<Longrightarrow>
     \<exists>rs. collect md t hits = Inr rs"
proof (induction hits)
  case Nil
  then show ?case by simp
next
  case (Cons h hits)
  obtain score idx where h: "h = (score, idx)"
    by (cases h)
  from Cons.prems have "\<exists>rs. collect md t hits = Inr rs"
    by (intro Cons.IH) simp
  then obtain rs where rs: "collect md t hits = Inr rs" ..
  show ?case
  proof (cases "idx \<noteq> - 1 \<and> t \<le> score")
    case True
    with Cons.prems h have "0 \<le> idx" "idx < int (length md)"
      by auto
    then have "py_getitem md idx = Inr (md ! nat idx)"
      by (rule py_getitem_in_range)
    with True rs h show ?thesis
      by simp
  next
    case False
    with rs h show ?thesis
      by auto
  qed
qed


lemma filter_pad:
  "filter (\<lambda>h. snd h \<noteq> - 1 \<and> t \<le> fst h) (pad k filler hits)
     = filter (\<lambda>h. snd h \<noteq> - 1 \<and> t \<le> fst h) hits"
  by (simp add: pad_def)

lemma descending_sort_key:
  "sorted_wrt (\<lambda>a b. fst b \<le> fst a) (sort_key (\<lambda>h. - fst h) (xs :: (real \<times> int) list))"
proof -
  have "sorted (map (\<lambda>h. - fst h) (sort_key (\<lambda>h. - fst h) xs))"
    by (rule sorted_sort_key)
  then show ?thesis
    by (simp add: sorted_wrt_map)
qed

lemma ascending_sort_key:
  "sorted_wrt (\<lambda>a b. fst a \<le> fst b) (sort_key fst (xs :: (real \<times> int) list))"
proof -
  have "sorted (map fst (sort_key fst xs))"
    by (rule sorted_sort_key)
  then show ?thesis
    by (simp add: sorted_wrt_map)
qed

lemma top_ip_descending:
  "sorted_wrt (\<lambda>a b. b \<le> a)
     (map fst (filter (\<lambda>h. snd h \<noteq> - 1 \<and> t \<le> fst h) (top_ip vs q k)))"
  unfolding top_ip_def filter_pad sorted_wrt_map
  by (intro sorted_wrt_filter sorted_wrt_take descending_sort_key)

lemma top_l2_ascending:
  "sorted_wrt (\<lambda>a b. a \<le> b)
     (map fst (filter (\<lambda>h. snd h \<noteq> - 1 \<and> t \<le> fst h) (top_l2 visit vs q k)))"
  unfolding top_l2_def filter_pad sorted_wrt_map
  by (intro sorted_wrt_filter sorted_wrt_take ascending_sort_key)

lemma search_Inr_cases:
  assumes "search visit db q k t = Inr rs"
  obtains "rs = []"
  | ix hits where "index db = Some ix" "faiss_search visit ix (normalize_row q) k = Inr hits"
      "collect (metadata db) t hits = Inr rs"
  using assms by (auto simp: search_def split: option.splits if_splits sum.splits)

lemma search_count_threshold:
  assumes "search visit db q k t = Inr rs"
  shows "length rs \<le> k \<and> (\<forall>r \<in> set rs. t \<le> similarity_score r)"
proof (cases rule: search_Inr_cases [OF assms])
  case 1
  then show ?thesis by simp
next
  case (2 ix hits)
  let ?keep = "filter (\<lambda>h. snd h \<noteq> - 1 \<and> t \<le> fst h) hits"
  from 2(3) have scores: "map similarity_score rs = map fst ?keep"
    by (rule collect_scores)
  then have "length rs = length ?keep"
    by (metis length_map)
  also have "\<dots> \<le> length hits"
    by (rule length_filter_le)
  also from 2(2) have "length hits = k"
    by (rule faiss_search_length)
  finally have "length rs \<le> k" .
  moreover have "\<forall>r \<in> set rs. t \<le> similarity_score r"
  proof
    fix r assume "r \<in> set rs"
    then have "similarity_score r \<in> set (map similarity_score rs)"
      by simp
    with scores have "similarity_score r \<in> fst ` set ?keep"
      by simp
    then show "t \<le> similarity_score r"
      by auto
  qed
  ultimately show ?thesis ..
qed

lemma search_flat_descending:
  assumes "search visit db q k t = Inr rs" and "index db = Some (IndexFlatIP d vs)"
  shows "sorted_wrt (\<lambda>a b. b \<le> a) (map similarity_score rs)"
proof (cases rule: search_Inr_cases [OF assms(1)])
  case 1
  then show ?thesis by simp
next
  case (2 ix hits)
  with assms(2) have "hits = top_ip vs (normalize_row q) k"
    by (auto split: if_splits)
  with collect_scores [OF 2(3)] show ?thesis
    by (simp add: top_ip_descending)
qed

lemma search_l2_ascending:
  assumes "search visit db q k t = Inr rs"
    and "index db = Some (IndexIVFFlat d tr vs) \<or> index db = Some (IndexHNSWFlat d vs)"
  shows "sorted_wrt (\<lambda>a b. a \<le> b) (map similarity_score rs)"
proof (cases rule: search_Inr_cases [OF assms(1)])
  case 1
  then show ?thesis by simp
next
  case (2 ix hits)
  with assms(2) have "hits = top_l2 visit vs (normalize_row q) k"
    by (auto split: if_splits)
  with collect_scores [OF 2(3)] show ?thesis
    by (simp add: top_l2_ascending)
qed

lemma top_ip_idx:
  "h \<in> set (top_ip vs q k) \<Longrightarrow> snd h = - 1 \<or> (0 \<le> snd h \<and> snd h < int (length vs))"
  unfolding top_ip_def
  using pad_idx [of "fst h" "snd h" k "- FLT_MAX" "\<lambda>h. - fst h"
      "rev (scored (inner_product q) (\<lambda>i. True) vs)" "inner_product q" "\<lambda>i. True" vs]
  by simp

subsection \<open>Claims about \<open>search\<close> and the IVF fallback\<close>

text \<open>
  C1.  The count and the threshold hold for every manager (\<open>search_count_threshold\<close>), and
  an inner-product index returns descending scores (\<open>search_flat_descending\<close>).  The order
  fails for the two strategies that the constructor builds without a metric argument:
  they are L2 indexes, so the values reported as \<open>similarity_score\<close> are squared distances,
  smallest first (\<open>search_l2_ascending\<close>).  Below, an HNSW manager of dimension 2 holding the
  unit vectors \<open>[1, 0]\<close> and \<open>[0, 1]\<close> is asked for the 2 neighbours of \<open>[1, 0]\<close> with
  threshold 0: it reports the scores 0 and 2, in this order.  With the default threshold
  0.5 it reports only the orthogonal vector, and drops the query's own document.
\<close>

theorem search_hnsw_ascending:
  "(case add_documents (init 2 HNSW) \<lparr>shape1 = 2, rows = [[1, 0], [0, 1]]\<rparr> [''a'', ''b''] of
      Inl failure \<Rightarrow> False
    | Inr db \<Rightarrow>
        search (\<lambda>q i. True) db [1, 0] 2 0
          = Inr [\<lparr>result_metadata = ''a'', similarity_score = 0, result_index = 0\<rparr>,
                 \<lparr>result_metadata = ''b'', similarity_score = 2, result_index = 1\<rparr>]
        \<and> search (\<lambda>q i. True) db [1, 0] 2 (1 / 2)
          = Inr [\<lparr>result_metadata = ''b'', similarity_score = 2, result_index = 1\<rparr>])"
  by (simp add: add_documents_def train_step_def init_def create_index_def normalize_L2_def
      search_def ntotal_def top_l2_def scored_def l2_sqr_def pad_def upt_2 py_getitem_def)

text \<open>
  C4, as stated, fails in two ways.  The output of \<open>get_stats\<close> has no field for the
  fallback: after an empty batch the index has been replaced by a Flat one and the
  statistics are those of the new manager.  And the fallback is repeated at every small
  batch, each time on a new empty index: after the batches \<open>[1, 0]\<close> (document a) and
  \<open>[0, 1]\<close> (document b), the query \<open>[0, 1]\<close> is answered with document a at score 1.
\<close>

theorem ivf_fallback_counterexample:
  "(case add_documents (init 2 IVF :: string vdb) \<lparr>shape1 = 2, rows = []\<rparr> [] of
      Inl failure \<Rightarrow> False
    | Inr db \<Rightarrow>
        index db = Some (IndexFlatIP 2 []) \<and>
        index (init 2 IVF :: string vdb) = Some (IndexIVFFlat 2 False []) \<and>
        get_stats db = get_stats (init 2 IVF :: string vdb))
   \<and>
   (case add_documents (init 2 IVF) \<lparr>shape1 = 2, rows = [[1, 0]]\<rparr> [''a''] of
      Inl failure \<Rightarrow> False
    | Inr db1 \<Rightarrow>
        (case add_documents db1 \<lparr>shape1 = 2, rows = [[0, 1]]\<rparr> [''b''] of
           Inl failure \<Rightarrow> False
         | Inr db2 \<Rightarrow>
             search (\<lambda>q i. True) db2 [0, 1] 1 (1 / 2)
               = Inr [\<lparr>result_metadata = ''a'', similarity_score = 1, result_index = 0\<rparr>]))"
  by (simp add: add_documents_def train_step_def init_def create_index_def normalize_L2_def
      get_stats_def ntotal_def search_def top_ip_def scored_def inner_product_def pad_def
      py_getitem_def)

lemma fallen_search_total:
  assumes "rows embeddings \<noteq> []" and "length md = length (rows embeddings)"
    and "length q = d" and "0 < k"
  shows "\<exists>rs. search visit (fallen d embeddings md) q k t = Inr rs
           \<and> length rs \<le> k
           \<and> list_all (\<lambda>r. t \<le> similarity_score r) rs
           \<and> sorted_wrt (\<lambda>a b. b \<le> a) (map similarity_score rs)"
proof -
  let ?vs = "map normalize_row (rows embeddings)"
  let ?hits = "top_ip ?vs (normalize_row q) k"
  have "\<forall>h \<in> set ?hits. snd h = - 1 \<or> (0 \<le> snd h \<and> snd h < int (length md))"
    using top_ip_idx [of _ ?vs "normalize_row q" k] assms(2) by auto
  then obtain rs where rs: "collect md t ?hits = Inr rs"
    using collect_total by blast
  with assms have s: "search visit (fallen d embeddings md) q k t = Inr rs"
    by (simp add: search_def fallen_def ntotal_def)
  have "sorted_wrt (\<lambda>a b. b \<le> a) (map similarity_score rs)"
    using s by (rule search_flat_descending) (simp add: fallen_def)
  moreover from search_count_threshold [OF s]
  have "length rs \<le> k" and "list_all (\<lambda>r. t \<le> similarity_score r) rs"
    by (simp_all add: list_all_iff)
  ultimately show ?thesis
    using s by blast
qed

text \<open>
  C4, amended.  A new IVF manager that receives a first batch of 1 to 99 rows of the
  right width, with as many metadata entries, does not fail: its index becomes an exact
  inner-product index over the normalised batch, it is the manager that the Flat strategy
  builds from the same batch except for the \<open>index_type\<close> field, and \<open>search\<close> answers as
  that manager does; for a query of the right width and \<open>k > 0\<close> it returns at most \<open>k\<close>
  results, all at or above the threshold, by descending inner product.  \<open>get_stats\<close> then
  reports \<open>index_type = IVF\<close>, \<open>is_trained = False\<close> and the number of documents: there is
  no field for the fallback, but the output differs from that of the new manager.
\<close>

theorem ivf_fallback:
  assumes "shape1 embeddings = d"
    and "rows embeddings \<noteq> []" and "length (rows embeddings) < 100"
    and "length md = length (rows embeddings)"
  shows "add_documents (init d IVF) embeddings md = Inr (fallen d embeddings md)
    \<and> add_documents (init d Flat) embeddings md
        = Inr ((fallen d embeddings md)\<lparr>index_type := Flat\<rparr>)
    \<and> search visit (fallen d embeddings md) q k t
        = search visit ((fallen d embeddings md)\<lparr>index_type := Flat\<rparr>) q k t
    \<and> (length q = d \<and> 0 < k \<longrightarrow>
         (\<exists>rs. search visit (fallen d embeddings md) q k t = Inr rs
            \<and> length rs \<le> k
            \<and> list_all (\<lambda>r. t \<le> similarity_score r) rs
            \<and> sorted_wrt (\<lambda>a b. b \<le> a) (map similarity_score rs)))
    \<and> get_stats (fallen d embeddings md)
        = \<lparr>total_documents = length md, stats_index_type = IVF, stats_dimension = d,
           stats_is_trained = False,
           index_size_mb = real (length md * d * 4) / (1024 * 1024)\<rparr>
    \<and> get_stats (fallen d embeddings md) \<noteq> get_stats (init d IVF :: 'm vdb)"
proof (intro conjI impI)
  show "add_documents (init d IVF) embeddings md = Inr (fallen d embeddings md)"
    using assms(1,3)
    by (simp add: add_documents_def train_step_def init_def create_index_def normalize_L2_def
        fallen_def)
  show "add_documents (init d Flat) embeddings md
          = Inr ((fallen d embeddings md)\<lparr>index_type := Flat\<rparr>)"
    using assms(1)
    by (simp add: add_documents_def train_step_def init_def create_index_def normalize_L2_def
        fallen_def)
  show "search visit (fallen d embeddings md) q k t
          = search visit ((fallen d embeddings md)\<lparr>index_type := Flat\<rparr>) q k t"
    by (simp add: search_def fallen_def)
  show "\<exists>rs. search visit (fallen d embeddings md) q k t = Inr rs
          \<and> length rs \<le> k
          \<and> list_all (\<lambda>r. t \<le> similarity_score r) rs
          \<and> sorted_wrt (\<lambda>a b. b \<le> a) (map similarity_score rs)"
    if "length q = d \<and> 0 < k"
    using that assms(2,4) by (intro fallen_search_total) simp_all
  show "get_stats (fallen d embeddings md)
          = \<lparr>total_documents = length md, stats_index_type = IVF, stats_dimension = d,
             stats_is_trained = False,
             index_size_mb = real (length md * d * 4) / (1024 * 1024)\<rparr>"
    using assms(4) by (simp add: get_stats_def fallen_def ntotal_def)
  show "get_stats (fallen d embeddings md) \<noteq> get_stats (init d IVF :: 'm vdb)"
    using assms(2,4) by (simp add: get_stats_def fallen_def init_def)
qed

theorem ivf_fallback_witness:
  "add_documents (init 2 IVF) \<lparr>shape1 = 2, rows = [[1, 0]]\<rparr> [''a'']
     = Inr (fallen 2 \<lparr>shape1 = 2, rows = [[1, 0]]\<rparr> [''a''])
   \<and> (\<exists>rs. search (\<lambda>q i. True) (fallen 2 \<lparr>shape1 = 2, rows = [[1, 0]]\<rparr> [''a''])
              [1, 0] 1 (1 / 2) = Inr rs
          \<and> length rs \<le> 1
          \<and> list_all (\<lambda>r. 1 / 2 \<le> similarity_score r) rs
          \<and> sorted_wrt (\<lambda>a b. b \<le> a) (map similarity_score rs))
   \<and> get_stats (fallen 2 \<lparr>shape1 = 2, rows = [[1, 0]]\<rparr> [''a''])
        \<noteq> get_stats (init 2 IVF :: string vdb)"
proof -
  let ?E = "\<lparr>shape1 = 2, rows = [[1, 0]]\<rparr>"
  have h: "shape1 ?E = 2" "rows ?E \<noteq> []" "length (rows ?E) < 100"
    "length [''a''] = length (rows ?E)"
    by simp_all
  have q: "length [1, 0 :: real] = 2 \<and> 0 < (1 :: nat)"
    by simp
  from ivf_fallback [OF h, of "\<lambda>q i. True" "[1, 0]" 1 "1 / 2"] q show ?thesis
    by blast
qed

subsection \<open>What the statistics reveal\<close>

text \<open>
  Among the managers produced by the constructor and \<open>add_documents\<close>, statistics that
  show \<open>index_type = IVF\<close>, \<open>is_trained = False\<close> and at least one document belong to a
  manager whose index is the exact one.
\<close>

lemma untrained_shape_init: "untrained_shape (init d t)"
  by (cases t) (simp_all add: untrained_shape_def init_def create_index_def)

lemma untrained_shape_step:
  assumes "untrained_shape db"
  shows "add_documents db embeddings md = Inr db' \<Longrightarrow> untrained_shape db'"
    and "add_documents db embeddings md = Inl (e, db') \<Longrightarrow> untrained_shape db'"
  using assms
  by (auto simp: add_documents_def train_step_def untrained_shape_def normalize_L2_def Let_def
      split: if_splits sum.splits option.splits)

lemma reachable_untrained_shape: "reachable db \<Longrightarrow> untrained_shape db"
  by (induction rule: reachable.induct)
     (auto intro: untrained_shape_init untrained_shape_step)

lemma fallback_inferable:
  assumes "reachable db"
    and "stats_index_type (get_stats db) = IVF"
    and "\<not> stats_is_trained (get_stats db)"
    and "0 < total_documents (get_stats db)"
  shows "\<exists>vs. index db = Some (IndexFlatIP (dimension db) vs)"
  using reachable_untrained_shape [OF assms(1)] assms(2-4)
  by (auto simp: untrained_shape_def get_stats_def)

section \<open>Properties of the multi-strategy search\<close>


lemma fold_dedup_step:
  "fold dedup_step xs (seen, acc) = (seen \<union> hit_id ` set xs, acc @ firsts hit_id seen xs)"
  by (induction xs arbitrary: seen acc) (auto simp: dedup_step_def Let_def)

lemma upt_0_Suc: "[0..<Suc n] = 0 # map Suc [0..<n]"
  by (simp add: upt_conv_Cons map_Suc_upt del: upt_Suc)

lemma firsts_nth:
  "firsts key seen xs =
     map (\<lambda>i. xs ! i) (filter (\<lambda>i. key (xs ! i) \<notin> seen \<union> key ` set (take i xs)) [0..<length xs])"
proof (induction xs arbitrary: seen)
  case Nil
  then show ?case by simp
next
  case (Cons x xs)
  let ?keep = "\<lambda>S i. key (xs ! i) \<notin> S \<union> key ` set (take i xs)"
  have shift: "map (\<lambda>i. (x # xs) ! i)
       (filter (\<lambda>i. key ((x # xs) ! i) \<notin> seen \<union> key ` set (take i (x # xs)))
          (map Suc [0..<length xs]))
     = map (\<lambda>i. xs ! i) (filter (?keep (insert (key x) seen)) [0..<length xs])"
    by (simp add: filter_map comp_def conj_ac)
  show ?case
  proof (cases "key x \<in> seen")
    case True
    then have "insert (key x) seen = seen"
      by auto
    with True shift show ?thesis
      by (simp add: upt_0_Suc Cons.IH del: upt_Suc)
  next
    case False
    with shift show ?thesis
      by (simp add: upt_0_Suc Cons.IH del: upt_Suc)
  qed
qed

lemma dedup_loop_first_occurrences:
  "snd (fold dedup_step xs ({}, [])) = first_occurrences hit_id xs"
  by (simp add: fold_dedup_step firsts_nth first_occurrences_def)


lemma first_occurrences_firsts: "first_occurrences key xs = firsts key {} xs"
  by (simp add: firsts_nth first_occurrences_def)

lemma firsts_fresh: "r \<in> set (firsts key seen xs) \<Longrightarrow> key r \<notin> seen"
  by (induction xs arbitrary: seen) (auto split: if_splits)

lemma firsts_subset: "set (firsts key seen xs) \<subseteq> set xs"
  by (induction xs arbitrary: seen) (auto split: if_splits)

lemma firsts_distinct: "distinct (map key (firsts key seen xs))"
proof (induction xs arbitrary: seen)
  case Nil
  then show ?case by simp
next
  case (Cons x xs)
  have "key x \<notin> key ` set (firsts key (insert (key x) seen) xs)"
  proof
    assume "key x \<in> key ` set (firsts key (insert (key x) seen) xs)"
    then obtain r where "r \<in> set (firsts key (insert (key x) seen) xs)" and "key r = key x"
      by auto
    with firsts_fresh [of r key "insert (key x) seen" xs] show False
      by simp
  qed
  with Cons.IH show ?case
    by simp
qed

lemma firsts_priority:
  "r \<in> set (firsts key seen (es @ rest)) \<Longrightarrow> e \<in> set es \<Longrightarrow> key e = key r \<Longrightarrow> r \<in> set es"
proof (induction es arbitrary: seen)
  case Nil
  then show ?case by simp
next
  case (Cons x es)
  show ?case
  proof (cases "key x \<in> seen")
    case True
    with Cons.prems(1) have r: "r \<in> set (firsts key seen (es @ rest))"
      by simp
    then have "key r \<notin> seen"
      by (rule firsts_fresh)
    with True Cons.prems(2,3) have "e \<in> set es"
      by auto
    with r Cons.prems(3) have "r \<in> set es"
      by (intro Cons.IH)
    then show ?thesis
      by simp
  next
    case False
    with Cons.prems(1)
    consider "r = x" | "r \<in> set (firsts key (insert (key x) seen) (es @ rest))"
      by auto
    then show ?thesis
    proof cases
      case 1
      then show ?thesis by simp
    next
      case 2
      then have "key r \<notin> insert (key x) seen"
        by (rule firsts_fresh)
      with Cons.prems(2,3) have "e \<in> set es"
        by auto
      with 2 Cons.prems(3) have "r \<in> set es"
        by (intro Cons.IH)
      then show ?thesis
        by simp
    qed
  qed
qed

lemma exact_match_type:
  "r \<in> set (exact_match_search U query recipes) \<Longrightarrow> match_type r = ExactName"
  by (auto simp: exact_match_search_def tagged_def Let_def)

lemma multi_strategy_search_eq:
  "multi_strategy_search U query recipes embeddings model =
     (case semantic_part query recipes embeddings model of
        Inl err \<Rightarrow> Inl err
      | Inr semantic_results \<Rightarrow>
          Inr (take 10 (first_occurrences hit_id
                 (exact_match_search U query recipes @ ingredient_based_search U query recipes
                  @ category_filter_search U query recipes @ semantic_results))))"
  by (simp add: multi_strategy_search_def semantic_part_def dedup_loop_first_occurrences
      split: sum.splits)

subsection \<open>An evaluation on two recipes\<close>

lemma exact_match_search_example:
  "exact_match_search ascii_db (ascii ''pho'') [pho_bo, bun_cha] = [tagged ExactName pho_bo]"
  by (simp add: exact_match_search_def ascii_db_def ascii_def pho_bo_def bun_cha_def)

lemma ingredient_based_search_example:
  "ingredient_based_search ascii_db (ascii ''pho'') [pho_bo, bun_cha] = [tagged Ingredient pho_bo]"
  by (simp add: ingredient_based_search_def ascii_db_def ascii_def pho_bo_def bun_cha_def)

lemma category_filter_search_example:
  "category_filter_search ascii_db (ascii ''pho'') [pho_bo, bun_cha] = []"
  by (simp add: category_filter_search_def category_keywords_def ascii_db_def ascii_def)

lemma semantic_search_example:
  "semantic_search (\<lambda>s. [1, 0]) (ascii ''pho'') [pho_bo, bun_cha]
      \<lparr>shape1 = 2, rows = [[4 / 5, 3 / 5], [1, 0]]\<rparr> (7 / 10)
   = Inr [\<lparr>hit_recipe = bun_cha, match_type = Semantic, hit_similarity = Some 1\<rparr>,
          \<lparr>hit_recipe = pho_bo, match_type = Semantic, hit_similarity = Some (4 / 5)\<rparr>]"
  by (simp add: semantic_search_def inner_product_def)

lemma multi_strategy_search_example:
  "multi_strategy_search ascii_db (ascii ''pho'') [pho_bo, bun_cha]
      (Some \<lparr>shape1 = 2, rows = [[4 / 5, 3 / 5], [1, 0]]\<rparr>) (Some (\<lambda>s. [1, 0]))
    = Inr [tagged ExactName pho_bo,
           \<lparr>hit_recipe = bun_cha, match_type = Semantic, hit_similarity = Some 1\<rparr>]"
  by (simp add: multi_strategy_search_def exact_match_search_example ingredient_based_search_example
      category_filter_search_example semantic_search_example)
     (simp add: dedup_step_def hit_id_def tagged_def pho_bo_def bun_cha_def ascii_def Let_def)

subsection \<open>The merge\<close>

text \<open>
  C2.  \<open>multi_strategy_search\<close> raises only if the semantic strategy does; otherwise its
  result is the concatenation of the exact, ingredient, category and semantic results, in
  this order, reduced to the first occurrence of every document identifier, and cut to 10
  entries.  So the result has at most 10 entries with distinct identifiers, and an entry
  whose identifier is that of an exact match carries the match type of the exact strategy,
  whatever other strategies found the same document.
\<close>

theorem multi_strategy_search_merge:
  "multi_strategy_search U query recipes embeddings model =
     (case semantic_part query recipes embeddings model of
        Inl err \<Rightarrow> Inl err
      | Inr semantic_results \<Rightarrow>
          Inr (take 10 (first_occurrences hit_id
                 (exact_match_search U query recipes @ ingredient_based_search U query recipes
                  @ category_filter_search U query recipes @ semantic_results))))
   \<and> (\<forall>rs. multi_strategy_search U query recipes embeddings model = Inr rs \<longrightarrow>
          length rs \<le> 10 \<and> distinct (map hit_id rs) \<and>
          (\<forall>r \<in> set rs. \<forall>e \<in> set (exact_match_search U query recipes).
             hit_id e = hit_id r \<longrightarrow> match_type r = ExactName))"
proof (intro conjI allI impI)
  show "multi_strategy_search U query recipes embeddings model =
     (case semantic_part query recipes embeddings model of
        Inl err \<Rightarrow> Inl err
      | Inr semantic_results \<Rightarrow>
          Inr (take 10 (first_occurrences hit_id
                 (exact_match_search U query recipes @ ingredient_based_search U query recipes
                  @ category_filter_search U query recipes @ semantic_results))))"
    by (rule multi_strategy_search_eq)
next
  fix rs
  assume "multi_strategy_search U query recipes embeddings model = Inr rs"
  then obtain sem where rs: "rs = take 10 (firsts hit_id {}
      (exact_match_search U query recipes @ ingredient_based_search U query recipes
       @ category_filter_search U query recipes @ sem))"
    by (auto simp: multi_strategy_search_eq first_occurrences_firsts split: sum.splits)
  show "length rs \<le> 10"
    by (simp add: rs)
  show "distinct (map hit_id rs)"
    unfolding rs take_map [symmetric] by (intro distinct_take firsts_distinct)
  show "\<forall>r \<in> set rs. \<forall>e \<in> set (exact_match_search U query recipes).
          hit_id e = hit_id r \<longrightarrow> match_type r = ExactName"
  proof (intro ballI impI)
    fix r e
    assume r: "r \<in> set rs" and e: "e \<in> set (exact_match_search U query recipes)"
      and id: "hit_id e = hit_id r"
    from r have "r \<in> set (firsts hit_id {}
      (exact_match_search U query recipes @ ingredient_based_search U query recipes
       @ category_filter_search U query recipes @ sem))"
      unfolding rs by (rule in_set_takeD)
    from firsts_priority [OF this e id] show "match_type r = ExactName"
      by (rule exact_match_type)
  qed
qed

theorem multi_strategy_search_merge_witness:
  "multi_strategy_search ascii_db (ascii ''pho'') [pho_bo, bun_cha]
      (Some \<lparr>shape1 = 2, rows = [[4 / 5, 3 / 5], [1, 0]]\<rparr>) (Some (\<lambda>s. [1, 0]))
    = Inr [tagged ExactName pho_bo,
           \<lparr>hit_recipe = bun_cha, match_type = Semantic, hit_similarity = Some 1\<rparr>]
   \<and> match_type (tagged ExactName pho_bo) = ExactName
   \<and> distinct (map hit_id
         [tagged ExactName pho_bo,
          \<lparr>hit_recipe = bun_cha, match_type = Semantic, hit_similarity = Some 1\<rparr>])"
proof -
  let ?rs = "[tagged ExactName pho_bo,
             \<lparr>hit_recipe = bun_cha, match_type = Semantic, hit_similarity = Some 1\<rparr>]"
  note run = multi_strategy_search_example
  from multi_strategy_search_merge
    [of ascii_db "ascii ''pho''" "[pho_bo, bun_cha]"
        "Some \<lparr>shape1 = 2, rows = [[4 / 5, 3 / 5], [1, 0]]\<rparr>" "Some (\<lambda>s. [1, 0])"]
    run
  have merged: "distinct (map hit_id ?rs)"
    "\<forall>r \<in> set ?rs.
       \<forall>e \<in> set (exact_match_search ascii_db (ascii ''pho'') [pho_bo, bun_cha]).
         hit_id e = hit_id r \<longrightarrow> match_type r = ExactName"
    by blast+
  from merged(2) have "match_type (tagged ExactName pho_bo) = ExactName"
    by (simp add: exact_match_search_example)
  with run merged(1) show ?thesis
    by blast
qed

section \<open>Properties of the confidence scorer\<close>

subsection \<open>The semantic factor\<close>

lemma decay_sum_pos: "n \<noteq> 0 \<Longrightarrow> 0 < (\<Sum>i \<leftarrow> [0..<n]. exp (- real i * 0.5))"
proof (induction n)
  case 0
  then show ?case by simp
next
  case (Suc n)
  have a: "0 \<le> (\<Sum>i \<leftarrow> [0..<n]. exp (- real i * 0.5))"
    by (rule sum_list_nonneg) auto
  have b: "0 < exp (- real n * 0.5)"
    by simp
  from add_nonneg_pos [OF a b] show ?case
    by simp
qed

lemma sum_list_map_divide:
  "(\<Sum>x \<leftarrow> xs. f x / (c :: real)) = (\<Sum>x \<leftarrow> xs. f x) / c"
  by (induction xs) (simp_all add: add_divide_distrib)

lemma map2_nth:
  "length xs = n \<Longrightarrow> map2 f xs (map g [0..<n]) = map (\<lambda>i. f (xs ! i) (g i)) [0..<n]"
  by (auto intro!: nth_equalityI)

lemma semantic_similarity_value:
  assumes "scores \<noteq> []"
  shows "calculate_semantic_similarity scores
           = Inr (min (2 * logistic 4 (1 / 2) (decayed_average scores)) 1)"
proof -
  let ?n = "length scores"
  let ?e = "\<lambda>i. exp (- real i * 0.5)"
  let ?S = "\<Sum>i \<leftarrow> [0..<?n]. ?e i"
  from assms have S: "0 < ?S"
    by (intro decay_sum_pos) simp
  let ?w = "map (\<lambda>w. w / ?S) (map ?e [0..<?n])"
  have w: "?w = map (\<lambda>i. ?e i / ?S) [0..<?n]"
    by simp
  have sumw: "sum_list ?w = 1"
    using S unfolding w by (simp add: sum_list_map_divide)
  have num: "sum_list (map2 (*) scores ?w) = (\<Sum>i \<leftarrow> [0..<?n]. scores ! i * ?e i) / ?S"
    unfolding w by (simp add: map2_nth sum_list_map_divide)
  have avg: "np_average scores ?w = Inr (decayed_average scores)"
    using sumw num by (simp add: np_average_def decayed_average_def)
  show ?thesis
    using assms avg by (simp add: calculate_semantic_similarity_def Let_def logistic_def)
qed

lemma logistic_pos: "0 < logistic k c x"
  by (simp add: logistic_def add_pos_pos)

lemma semantic_similarity_in_range:
  "\<exists>v. calculate_semantic_similarity scores = Inr v \<and> 0 \<le> v \<and> v \<le> 1"
proof (cases "scores = []")
  case True
  then show ?thesis by (simp add: calculate_semantic_similarity_def)
next
  case False
  from logistic_pos [of 4 "1 / 2" "decayed_average scores"]
  have "0 \<le> min (2 * logistic 4 (1 / 2) (decayed_average scores)) 1"
    by simp
  with semantic_similarity_value [OF False] show ?thesis
    by simp
qed

lemma semantic_one: "calculate_semantic_similarity [1] = Inr 1"
proof -
  have "decayed_average [1] = 1"
    by (simp add: decayed_average_def)
  moreover have "1 \<le> 2 * logistic 4 (1 / 2) 1"
  proof -
    have "exp (- 2 :: real) \<le> 1"
      by simp
    then have "1 + exp (- 2 :: real) \<le> 2"
      by simp
    moreover have "0 < 1 + exp (- 2 :: real)"
      by (simp add: add_pos_pos)
    ultimately have "1 \<le> 2 / (1 + exp (- 2 :: real))"
      by (simp add: pos_le_divide_eq)
    then show ?thesis
      by (simp add: logistic_def)
  qed
  ultimately show ?thesis
    using semantic_similarity_value [of "[1]"] by simp
qed

text \<open>
  C6, as stated, fails: the source doubles the logistic value and caps the result at 1.
  One score of 0.5 gives the factor 1, where the logistic function gives 0.5; one score of
  1 gives the factor 1, where twice the logistic value is above 1.
\<close>

theorem semantic_similarity_counterexample:
  "calculate_semantic_similarity [1 / 2] = Inr 1
   \<and> logistic 4 (1 / 2) (decayed_average [1 / 2]) = 1 / 2
   \<and> calculate_semantic_similarity [1] = Inr 1
   \<and> 1 < 2 * logistic 4 (1 / 2) (decayed_average [1])"
proof -
  have avg: "decayed_average [1 / 2] = 1 / 2" "decayed_average [1] = 1"
    by (simp_all add: decayed_average_def)
  have half: "logistic 4 (1 / 2) (1 / 2) = 1 / 2"
    by (simp add: logistic_def)
  have "exp (- 2 :: real) < 1"
    by simp
  then have "1 + exp (- 2 :: real) < 2"
    by simp
  moreover have "0 < 1 + exp (- 2 :: real)"
    by (simp add: add_pos_pos)
  ultimately have "1 < 2 / (1 + exp (- 2 :: real))"
    by (simp add: pos_less_divide_eq)
  then have above: "1 < 2 * logistic 4 (1 / 2) 1"
    by (simp add: logistic_def)
  have at_half: "logistic 4 (1 / 2) (decayed_average [1 / 2]) = 1 / 2"
    by (simp only: avg half)
  have at_one: "1 < 2 * logistic 4 (1 / 2) (decayed_average [1])"
    using above by (simp only: avg)
  have "calculate_semantic_similarity [1 / 2] = Inr 1"
    using semantic_similarity_value [of "[1 / 2]"] by (simp add: at_half)
  with at_half at_one semantic_one show ?thesis
    by blast
qed

text \<open>
  C6, amended.  The factor is 0 for an empty list of scores; otherwise it is twice the
  logistic function of steepness 4 and centre 0.5, applied to the average of the scores
  with weights \<open>exp (- i / 2)\<close> by rank, and capped at 1.  In particular the call to
  \<open>numpy.average\<close> never raises.
\<close>

theorem semantic_similarity_formula:
  "calculate_semantic_similarity scores
     = Inr (if scores = [] then 0
            else min (2 * logistic 4 (1 / 2) (decayed_average scores)) 1)"
proof (cases "scores = []")
  case True
  then show ?thesis
    by (simp add: calculate_semantic_similarity_def)
next
  case False
  with semantic_similarity_value [OF False] show ?thesis
    by simp
qed

subsection \<open>The other factors and the overall score\<close>

lemma sum_list_bounds:
  fixes xs :: "real list"
  assumes "\<forall>x \<in> set xs. a \<le> x \<and> x \<le> b"
  shows "a * real (length xs) \<le> sum_list xs \<and> sum_list xs \<le> b * real (length xs)"
  using assms by (induction xs) (auto simp: algebra_simps)

lemma np_mean_bounds:
  assumes "xs \<noteq> []" and "\<forall>x \<in> set xs. a \<le> x \<and> x \<le> b"
  shows "a \<le> np_mean xs \<and> np_mean xs \<le> b"
proof -
  from assms(1) have n: "0 < real (length xs)"
    by simp
  from sum_list_bounds [OF assms(2)] n show ?thesis
    unfolding np_mean_def by (simp add: pos_le_divide_eq pos_divide_le_eq)
qed

lemma keyword_match_in_range:
  "0 \<le> calculate_keyword_match U query docs \<and> calculate_keyword_match U query docs \<le> 1"
  by (simp add: calculate_keyword_match_def Let_def)

lemma category_fold_nonneg:
  "0 \<le> s \<Longrightarrow> 0 \<le> fold (\<lambda>entry score. if P entry then score + 0.2 else score) entries (s :: real)"
  by (induction entries arbitrary: s) auto

lemma doc_relevance_in_range: "0 \<le> doc_relevance U q d \<and> doc_relevance U q d \<le> 1"
proof -
  have "0 \<le> fold (\<lambda>entry score.
                    if list_ex (\<lambda>keyword. py_in keyword q) (snd entry)
                       \<and> list_ex (\<lambda>keyword. py_in keyword (context_doc_text U d)) (snd entry)
                    then score + 0.2 else score)
              cooking_keywords (0 :: real)"
    by (rule category_fold_nonneg) simp
  then show ?thesis
    by (auto simp: doc_relevance_def Let_def)
qed

lemma context_relevance_in_range:
  "0 \<le> calculate_context_relevance U query docs \<and> calculate_context_relevance U query docs \<le> 1"
proof (cases "docs = []")
  case True
  then show ?thesis by (simp add: calculate_context_relevance_def)
next
  case False
  then have "0 \<le> np_mean (map (doc_relevance U (str_lower U query)) docs)
      \<and> np_mean (map (doc_relevance U (str_lower U query)) docs) \<le> 1"
    by (intro np_mean_bounds) (auto simp: doc_relevance_in_range)
  with False show ?thesis
    by (simp add: calculate_context_relevance_def)
qed

lemma doc_reliability_in_range: "0 \<le> doc_reliability d \<and> doc_reliability d \<le> 1"
  by (cases "doc_type d") (auto simp: doc_reliability_def Let_def)

lemma source_reliability_in_range:
  "0 \<le> calculate_source_reliability docs \<and> calculate_source_reliability docs \<le> 1"
proof (cases "docs = []")
  case True
  then show ?thesis by (simp add: calculate_source_reliability_def)
next
  case False
  then have "0 \<le> np_mean (map doc_reliability docs) \<and> np_mean (map doc_reliability docs) \<le> 1"
    by (intro np_mean_bounds) (auto simp: doc_reliability_in_range)
  with False show ?thesis
    by (simp add: calculate_source_reliability_def)
qed

lemma query_clarity_in_range:
  "0 \<le> calculate_query_clarity U query \<and> calculate_query_clarity U query \<le> 1"
  by (simp add: calculate_query_clarity_def Let_def)

lemma answer_completeness_in_range:
  "0 \<le> calculate_answer_completeness U query answer
   \<and> calculate_answer_completeness U query answer \<le> 1"
  by (simp add: calculate_answer_completeness_def Let_def)

lemma doc_freshness_nonneg: "0 \<le> doc_freshness now d"
  by (simp add: doc_freshness_def Let_def split: created_at.splits)

lemma doc_freshness_le_one:
  assumes "\<forall>t. doc_created d = Naive t \<longrightarrow> t \<le> now"
  shows "doc_freshness now d \<le> 1"
proof (cases "doc_created d")
  case (Naive t)
  with assms have "0 \<le> now - t"
    by simp
  then have "0 \<le> (now - t) div 86400000000"
    by (simp add: pos_imp_zdiv_nonneg_iff)
  with Naive show ?thesis
    by (simp add: doc_freshness_def Let_def)
qed (simp_all add: doc_freshness_def)

lemma np_mean_nonneg: "\<forall>x \<in> set xs. 0 \<le> x \<Longrightarrow> 0 \<le> np_mean xs"
  by (simp add: np_mean_def sum_list_nonneg)

lemma data_freshness_nonneg: "0 \<le> calculate_data_freshness now docs"
  by (simp add: calculate_data_freshness_def np_mean_nonneg doc_freshness_nonneg)

lemma data_freshness_le_one:
  assumes "\<forall>d \<in> set docs. \<forall>t. doc_created d = Naive t \<longrightarrow> t \<le> now"
  shows "calculate_data_freshness now docs \<le> 1"
proof (cases "docs = []")
  case True
  then show ?thesis by (simp add: calculate_data_freshness_def)
next
  case False
  then have "0 \<le> np_mean (map (doc_freshness now) docs)
      \<and> np_mean (map (doc_freshness now) docs) \<le> 1"
    using assms by (intro np_mean_bounds) (auto simp: doc_freshness_nonneg doc_freshness_le_one)
  with False show ?thesis
    by (simp add: calculate_data_freshness_def)
qed

lemma freshness_future: "calculate_data_freshness 0 [future_recipe 3650] = 11"
  by (simp add: calculate_data_freshness_def doc_freshness_def future_recipe_def np_mean_def)

lemma freshness_tomorrow: "calculate_data_freshness 0 [future_recipe 1] = 366 / 365"
  by (simp add: calculate_data_freshness_def doc_freshness_def future_recipe_def np_mean_def)

lemma keyword_empty_query: "calculate_keyword_match ascii_db [] [future_recipe 3650] = 0"
  by (simp add: calculate_keyword_match_def word_set_def ascii_db_def)

lemma py_in_empty [simp]: "py_in kw [] = (kw = [])"
  by simp

lemma context_empty_query: "calculate_context_relevance ascii_db [] [future_recipe 3650] = 0"
  by (simp add: calculate_context_relevance_def doc_relevance_def np_mean_def ascii_db_def
      cooking_keywords_def cong_thuc_def cach_lam_def faq_question_words_def ascii_def
      future_recipe_def)

lemma reliability_bare: "calculate_source_reliability [future_recipe 3650] = 0.8"
  by (simp add: calculate_source_reliability_def doc_reliability_def np_mean_def
      future_recipe_def)

lemma clarity_empty: "calculate_query_clarity ascii_db [] = 0.2"
  by (simp add: calculate_query_clarity_def py_strip_def ascii_db_def)

lemma completeness_empty: "calculate_answer_completeness ascii_db [] [] = 0.1"
  by (simp add: calculate_answer_completeness_def)

lemma semantic_empty: "calculate_semantic_similarity [] = Inr 0"
  by (simp add: calculate_semantic_similarity_def)

subsection \<open>The explanation\<close>

lemma find_filter: "List.find P xs = (case filter P xs of [] \<Rightarrow> None | y # ys \<Rightarrow> Some y)"
  by (induction xs) auto

lemma find_first:
  "filter P xs \<noteq> [] \<Longrightarrow> List.find P xs = Some (hd (filter P xs))"
  by (simp add: find_filter split: list.splits)

lemma hd_filter_self: "xs \<noteq> [] \<Longrightarrow> P (hd xs) \<Longrightarrow> hd (filter P xs) = hd xs"
  by (cases xs) auto

lemma last_filter_self: "xs \<noteq> [] \<Longrightarrow> P (last xs) \<Longrightarrow> last (filter P xs) = last xs"
proof (induction xs)
  case Nil
  then show ?case by simp
next
  case (Cons x xs)
  show ?case
  proof (cases "xs = []")
    case True
    with Cons.prems show ?thesis by simp
  next
    case False
    with Cons.prems have P: "P (last xs)"
      by simp
    with False have IH: "last (filter P xs) = last xs"
      by (intro Cons.IH)
    from False P have "last xs \<in> set (filter P xs)"
      by simp
    then have "filter P xs \<noteq> []"
      by (metis empty_iff empty_set)
    with IH False show ?thesis
      by simp
  qed
qed

lemma hd_stable:
  fixes f :: "'a \<Rightarrow> real"
  assumes "xs \<noteq> []"
  shows "hd (sort_key f xs) = hd (filter (\<lambda>x. f x = f (hd (sort_key f xs))) xs)"
proof -
  let ?ys = "sort_key f xs"
  from assms have ne: "?ys \<noteq> []"
    by (metis length_0_conv length_sort)
  have "hd ?ys = hd (filter (\<lambda>x. f x = f (hd ?ys)) ?ys)"
    using ne by (simp add: hd_filter_self)
  also have "filter (\<lambda>x. f x = f (hd ?ys)) ?ys = filter (\<lambda>x. f x = f (hd ?ys)) xs"
    by (rule sort_key_stable)
  finally show ?thesis .
qed

lemma last_stable:
  fixes f :: "'a \<Rightarrow> real"
  assumes "xs \<noteq> []"
  shows "last (sort_key f xs) = last (filter (\<lambda>x. f x = f (last (sort_key f xs))) xs)"
proof -
  let ?ys = "sort_key f xs"
  from assms have ne: "?ys \<noteq> []"
    by (metis length_0_conv length_sort)
  have "last ?ys = last (filter (\<lambda>x. f x = f (last ?ys)) ?ys)"
    using ne by (simp add: last_filter_self)
  also have "filter (\<lambda>x. f x = f (last ?ys)) ?ys = filter (\<lambda>x. f x = f (last ?ys)) xs"
    by (rule sort_key_stable)
  finally show ?thesis .
qed

lemma sorted_hd_le:
  fixes f :: "'a \<Rightarrow> real"
  shows "sorted (map f ys) \<Longrightarrow> y \<in> set ys \<Longrightarrow> f (hd ys) \<le> f y"
  by (cases ys) auto

lemma sorted_le_last:
  fixes f :: "'a \<Rightarrow> real"
  shows "sorted (map f ys) \<Longrightarrow> y \<in> set ys \<Longrightarrow> f y \<le> f (last ys)"
  by (induction ys) (auto split: if_splits)

lemma sorted_hd_least:
  fixes f :: "'a \<Rightarrow> real"
  assumes "y \<in> set xs"
  shows "f (hd (sort_key f xs)) \<le> f y"
  using assms by (intro sorted_hd_le sorted_sort_key) simp

lemma sorted_last_greatest:
  fixes f :: "'a \<Rightarrow> real"
  assumes "y \<in> set xs"
  shows "f y \<le> f (last (sort_key f xs))"
  using assms by (intro sorted_le_last sorted_sort_key) simp

lemma py_getitem_first: "xs \<noteq> [] \<Longrightarrow> py_getitem xs 0 = Inr (hd xs)"
  by (cases xs) (simp_all add: py_getitem_def)

lemma py_getitem_last: "xs \<noteq> [] \<Longrightarrow> py_getitem xs (- 1) = Inr (last xs)"
  by (simp add: py_getitem_def last_conv_nth nat_diff_distrib' of_nat_diff)

lemma generate_explanation_total:
  assumes "factors \<noteq> []"
  shows "\<exists>expl. generate_explanation fmt factors overall = Inr expl"
proof -
  from assms have "sort_key (\<lambda>x. - snd x) factors \<noteq> []"
    by (metis length_0_conv length_sort)
  then show ?thesis
    by (simp add: generate_explanation_def Let_def py_getitem_first py_getitem_last)
qed

lemma decimal_digit: "n < 10 \<Longrightarrow> decimal bound n = [48 + n]"
  by (cases bound) simp_all

lemma format_2f_half: "format_2f (1 / 2) = ascii ''0.50''"
  by (simp add: format_2f_def round_half_even_def decimal_digit ascii_def)

lemma format_2f_examples:
  "format_2f (9 / 10) = ascii ''0.90''" "format_2f (1 / 5) = ascii ''0.20''"
  by (simp_all add: format_2f_def round_half_even_def decimal_digit ascii_def)

lemma first_index:
  assumes "filter P xs \<noteq> []"
  shows "\<exists>i < length xs. hd (filter P xs) = xs ! i \<and> P (xs ! i) \<and> (\<forall>k < i. \<not> P (xs ! k))"
proof -
  from assms have "List.find P xs = Some (hd (filter P xs))"
    by (rule find_first)
  then show ?thesis
    unfolding find_Some_iff by blast
qed

lemma last_index:
  assumes "filter P xs \<noteq> []"
  shows "\<exists>j < length xs. last (filter P xs) = xs ! j \<and> P (xs ! j)
           \<and> (\<forall>k < length xs. j < k \<longrightarrow> \<not> P (xs ! k))"
  using assms
proof (induction xs)
  case Nil
  then show ?case by simp
next
  case (Cons x xs)
  show ?case
  proof (cases "filter P xs = []")
    case True
    with Cons.prems have px: "P x"
      by (auto split: if_splits)
    from True have none: "\<forall>k < length xs. \<not> P (xs ! k)"
      by (metis filter_empty_conv nth_mem)
    have "last (filter P (x # xs)) = (x # xs) ! 0"
      using True px by simp
    moreover have "\<forall>k < length (x # xs). 0 < k \<longrightarrow> \<not> P ((x # xs) ! k)"
      using none by (auto simp: nth_Cons')
    ultimately show ?thesis
      using px by (intro exI [of _ 0]) simp
  next
    case False
    from Cons.IH [OF False] obtain j where j: "j < length xs" "last (filter P xs) = xs ! j"
      "P (xs ! j)" "\<forall>k < length xs. j < k \<longrightarrow> \<not> P (xs ! k)"
      by blast
    have "last (filter P (x # xs)) = (x # xs) ! Suc j"
      using False j(2) by simp
    moreover have "\<forall>k < length (x # xs). Suc j < k \<longrightarrow> \<not> P ((x # xs) ! k)"
      using j(4) by (auto simp: nth_Cons' less_Suc_eq_0_disj)
    ultimately show ?thesis
      using j(1,3) by (intro exI [of _ "Suc j"]) simp
  qed
qed

text \<open>
  C9, as stated, fails in two ways.  On the empty dictionary the source raises
  \<open>IndexError\<close> at \<open>sorted_factors[0]\<close>: no explanation is produced.  And of several
  factors of the smallest value the explanation names the one met last, not the one met
  first: for the factors a and b, both 0.5, it names a as the strongest and b as the
  weakest.
\<close>

theorem generate_explanation_counterexample:
  "generate_explanation format_2f [] 0.5 = Inl IndexError
   \<and> strongest_by_encounter [(ascii ''a'', 0.5), (ascii ''b'', 0.5)] = Some (ascii ''a'', 0.5)
   \<and> weakest_by_encounter [(ascii ''a'', 0.5), (ascii ''b'', 0.5)] = Some (ascii ''a'', 0.5)
   \<and> generate_explanation format_2f [(ascii ''a'', 0.5), (ascii ''b'', 0.5)] 0.5
       = Inr [272, 105, 7875, 109, 32, 116, 105, 110, 32, 99, 7853, 121, 32, 116, 7893, 110,
              103, 32, 116, 104, 7875, 58, 32, 48, 46, 53, 48, 32, 124, 32, 89, 7871, 117,
              32, 116, 7889, 32, 109, 7841, 110, 104, 32, 110, 104, 7845, 116, 58, 32, 97,
              32, 40, 48, 46, 53, 48, 41, 32, 124, 32, 89, 7871, 117, 32, 116, 7889, 32, 121,
              7871, 117, 32, 110, 104, 7845, 116, 58, 32, 98, 32, 40, 48, 46, 53, 48, 41]"
  by (simp add: generate_explanation_def py_getitem_def strongest_by_encounter_def
      weakest_by_encounter_def format_2f_half overall_label_def strongest_label_def weakest_label_def ascii_def)

text \<open>
  C9, amended.  On the empty dictionary \<open>_generate_explanation\<close> raises \<open>IndexError\<close>.  On
  every other dictionary the explanation is the text of three parts joined by \<open>" | "\<close>:
  the overall score, formatted, after its label; the name and the formatted value of the
  strongest factor after its label; and the same for the weakest factor.  The strongest
  factor has the largest value, and every factor met before it has a smaller one; the
  weakest factor has the smallest value, and every factor met after it has a larger one.
\<close>

theorem generate_explanation_names:
  "generate_explanation fmt [] overall = Inl IndexError
   \<and> (factors \<noteq> [] \<longrightarrow>
       (\<exists>i j. i < length factors \<and> j < length factors
          \<and> (\<forall>k < length factors. snd (factors ! k) \<le> snd (factors ! i))
          \<and> (\<forall>k < i. snd (factors ! k) < snd (factors ! i))
          \<and> (\<forall>k < length factors. snd (factors ! j) \<le> snd (factors ! k))
          \<and> (\<forall>k < length factors. j < k \<longrightarrow> snd (factors ! j) < snd (factors ! k))
          \<and> generate_explanation fmt factors overall
              = Inr ([272, 105, 7875, 109, 32, 116, 105, 110, 32, 99, 7853, 121, 32, 116,
                      7893, 110, 103, 32, 116, 104, 7875, 58, 32]
                     @ fmt overall @ ascii '' | ''
                     @ [89, 7871, 117, 32, 116, 7889, 32, 109, 7841, 110, 104, 32, 110, 104,
                        7845, 116, 58, 32]
                     @ fst (factors ! i) @ ascii '' ('' @ fmt (snd (factors ! i))
                     @ ascii '') | ''
                     @ [89, 7871, 117, 32, 116, 7889, 32, 121, 7871, 117, 32, 110, 104, 7845,
                        116, 58, 32]
                     @ fst (factors ! j) @ ascii '' ('' @ fmt (snd (factors ! j))
                     @ ascii '')'')))"
proof (intro conjI impI)
  show "generate_explanation fmt [] overall = Inl IndexError"
    by (simp add: generate_explanation_def py_getitem_def)
next
  assume ne0: "factors \<noteq> []"
  let ?f = "\<lambda>x :: str \<times> real. - snd x"
  let ?ys = "sort_key ?f factors"
  let ?s = "hd ?ys" and ?w = "last ?ys"
  let ?M = "Max (snd ` set factors)" and ?m = "Min (snd ` set factors)"
  from ne0 have ne: "?ys \<noteq> []"
    by (metis length_0_conv length_sort)
  then have s_in: "?s \<in> set factors" and w_in: "?w \<in> set factors"
    using hd_in_set [OF ne] last_in_set [OF ne] by simp_all
  have fin: "finite (snd ` set factors)"
    by simp
  have smax: "snd ?s = ?M"
  proof (rule Max_eqI [symmetric, OF fin])
    show "snd ?s \<in> snd ` set factors"
      using s_in by (rule imageI)
    fix v assume "v \<in> snd ` set factors"
    then obtain y where "y \<in> set factors" "v = snd y"
      by auto
    with sorted_hd_least [of y factors ?f] show "v \<le> snd ?s"
      by simp
  qed
  have wmin: "snd ?w = ?m"
  proof (rule Min_eqI [symmetric, OF fin])
    show "snd ?w \<in> snd ` set factors"
      using w_in by (rule imageI)
    fix v assume "v \<in> snd ` set factors"
    then obtain y where "y \<in> set factors" "v = snd y"
      by auto
    with sorted_last_greatest [of y factors ?f] show "snd ?w \<le> v"
      by simp
  qed
  have s_eq: "?s = hd (filter (\<lambda>x. snd x = ?M) factors)"
    using hd_stable [OF ne0, of ?f] smax by simp
  have w_eq: "?w = last (filter (\<lambda>x. snd x = ?m) factors)"
    using last_stable [OF ne0, of ?f] wmin by simp
  have "filter (\<lambda>x. snd x = ?M) factors \<noteq> []"
    using s_in smax by (metis (mono_tags, lifting) empty_iff empty_set mem_Collect_eq set_filter)
  from first_index [OF this] s_eq obtain i where i: "i < length factors" "?s = factors ! i"
    "snd (factors ! i) = ?M" "\<forall>k < i. snd (factors ! k) \<noteq> ?M"
    by auto
  have "filter (\<lambda>x. snd x = ?m) factors \<noteq> []"
    using w_in wmin by (metis (mono_tags, lifting) empty_iff empty_set mem_Collect_eq set_filter)
  from last_index [OF this] w_eq obtain j where j: "j < length factors" "?w = factors ! j"
    "snd (factors ! j) = ?m" "\<forall>k < length factors. j < k \<longrightarrow> snd (factors ! k) \<noteq> ?m"
    by auto
  have le_max: "snd (factors ! k) \<le> ?M" and ge_min: "?m \<le> snd (factors ! k)"
    if "k < length factors" for k
    using that fin by (simp_all add: Max_ge Min_le)
  have a: "\<forall>k < length factors. snd (factors ! k) \<le> snd (factors ! i)"
    using le_max i(3) by simp
  have b: "\<forall>k < i. snd (factors ! k) < snd (factors ! i)"
  proof (intro allI impI)
    fix k assume k: "k < i"
    with i(1) have "k < length factors"
      by simp
    from le_max [OF this] i(4) k i(3) show "snd (factors ! k) < snd (factors ! i)"
      by (simp add: order_less_le)
  qed
  have c: "\<forall>k < length factors. snd (factors ! j) \<le> snd (factors ! k)"
    using ge_min j(3) by simp
  have d: "\<forall>k < length factors. j < k \<longrightarrow> snd (factors ! j) < snd (factors ! k)"
  proof (intro allI impI)
    fix k assume k: "k < length factors" "j < k"
    from j(4) k have "snd (factors ! k) \<noteq> ?m"
      by blast
    with ge_min [OF k(1)] have "?m < snd (factors ! k)"
      by linarith
    with j(3) show "snd (factors ! j) < snd (factors ! k)"
      by simp
  qed
  have run: "generate_explanation fmt factors overall
      = Inr ([272, 105, 7875, 109, 32, 116, 105, 110, 32, 99, 7853, 121, 32, 116,
              7893, 110, 103, 32, 116, 104, 7875, 58, 32]
             @ fmt overall @ ascii '' | ''
             @ [89, 7871, 117, 32, 116, 7889, 32, 109, 7841, 110, 104, 32, 110, 104,
                7845, 116, 58, 32]
             @ fst (factors ! i) @ ascii '' ('' @ fmt (snd (factors ! i))
             @ ascii '') | ''
             @ [89, 7871, 117, 32, 116, 7889, 32, 121, 7871, 117, 32, 110, 104, 7845,
                116, 58, 32]
             @ fst (factors ! j) @ ascii '' ('' @ fmt (snd (factors ! j))
             @ ascii '')'')"
    using ne i(2) j(2)
    by (simp add: generate_explanation_def Let_def py_getitem_first py_getitem_last
        overall_label_def strongest_label_def weakest_label_def ascii_def)
  from i(1) j(1) a b c d run
  show "\<exists>i j. i < length factors \<and> j < length factors
          \<and> (\<forall>k < length factors. snd (factors ! k) \<le> snd (factors ! i))
          \<and> (\<forall>k < i. snd (factors ! k) < snd (factors ! i))
          \<and> (\<forall>k < length factors. snd (factors ! j) \<le> snd (factors ! k))
          \<and> (\<forall>k < length factors. j < k \<longrightarrow> snd (factors ! j) < snd (factors ! k))
          \<and> generate_explanation fmt factors overall
              = Inr ([272, 105, 7875, 109, 32, 116, 105, 110, 32, 99, 7853, 121, 32, 116,
                      7893, 110, 103, 32, 116, 104, 7875, 58, 32]
                     @ fmt overall @ ascii '' | ''
                     @ [89, 7871, 117, 32, 116, 7889, 32, 109, 7841, 110, 104, 32, 110, 104,
                        7845, 116, 58, 32]
                     @ fst (factors ! i) @ ascii '' ('' @ fmt (snd (factors ! i))
                     @ ascii '') | ''
                     @ [89, 7871, 117, 32, 116, 7889, 32, 121, 7871, 117, 32, 110, 104, 7845,
                        116, 58, 32]
                     @ fst (factors ! j) @ ascii '' ('' @ fmt (snd (factors ! j))
                     @ ascii '')'')"
    by blast
qed

theorem generate_explanation_names_witness:
  "generate_explanation format_2f
       [(ascii ''a'', 0.9), (ascii ''b'', 0.2), (ascii ''c'', 0.9), (ascii ''d'', 0.2)] 0.5
     = Inr [272, 105, 7875, 109, 32, 116, 105, 110, 32, 99, 7853, 121, 32, 116, 7893, 110,
            103, 32, 116, 104, 7875, 58, 32, 48, 46, 53, 48, 32, 124, 32, 89, 7871, 117,
            32, 116, 7889, 32, 109, 7841, 110, 104, 32, 110, 104, 7845, 116, 58, 32, 97,
            32, 40, 48, 46, 57, 48, 41, 32, 124, 32, 89, 7871, 117, 32, 116, 7889, 32, 121,
            7871, 117, 32, 110, 104, 7845, 116, 58, 32, 100, 32, 40, 48, 46, 50, 48, 41]"
proof -
  let ?F = "[(ascii ''a'', 0.9 :: real), (ascii ''b'', 0.2), (ascii ''c'', 0.9),
             (ascii ''d'', 0.2)]"
  have "?F \<noteq> []"
    by simp
  with generate_explanation_names [of format_2f "0.5" ?F]
  obtain i j where i: "i < length ?F" and j: "j < length ?F"
    and a: "\<forall>k < length ?F. snd (?F ! k) \<le> snd (?F ! i)"
    and b: "\<forall>k < i. snd (?F ! k) < snd (?F ! i)"
    and c: "\<forall>k < length ?F. snd (?F ! j) \<le> snd (?F ! k)"
    and d: "\<forall>k < length ?F. j < k \<longrightarrow> snd (?F ! j) < snd (?F ! k)"
    and run: "generate_explanation format_2f ?F 0.5
      = Inr ([272, 105, 7875, 109, 32, 116, 105, 110, 32, 99, 7853, 121, 32, 116,
              7893, 110, 103, 32, 116, 104, 7875, 58, 32]
             @ format_2f 0.5 @ ascii '' | ''
             @ [89, 7871, 117, 32, 116, 7889, 32, 109, 7841, 110, 104, 32, 110, 104,
                7845, 116, 58, 32]
             @ fst (?F ! i) @ ascii '' ('' @ format_2f (snd (?F ! i))
             @ ascii '') | ''
             @ [89, 7871, 117, 32, 116, 7889, 32, 121, 7871, 117, 32, 110, 104, 7845,
                116, 58, 32]
             @ fst (?F ! j) @ ascii '' ('' @ format_2f (snd (?F ! j))
             @ ascii '')'')"
    by blast
  from i have i_cases: "i = 0 \<or> i = 1 \<or> i = 2 \<or> i = 3"
    by auto
  from j have j_cases: "j = 0 \<or> j = 1 \<or> j = 2 \<or> j = 3"
    by auto
  have "i = 0"
    using i_cases a [rule_format, of 0] b [rule_format, of 0] by auto
  moreover have "j = 3"
    using j_cases c [rule_format, of 1] d [rule_format, of 3] by auto
  ultimately show ?thesis
    using run by (simp add: format_2f_half format_2f_examples ascii_def)
qed

subsection \<open>The range of the factors\<close>

lemma confidence_in_range:
  assumes "\<forall>d \<in> set docs. \<forall>t. doc_created d = Naive t \<longrightarrow> t \<le> now"
  shows "\<exists>c. calculate_confidence U fmt now query docs scores answer = Inr c
           \<and> list_all (\<lambda>kv. 0 \<le> snd kv \<and> snd kv \<le> 1) (cs_factors c)
           \<and> 0 \<le> cs_overall_score c \<and> cs_overall_score c \<le> 1"
proof -
  obtain a where a: "calculate_semantic_similarity scores = Inr a" "0 \<le> a" "a \<le> 1"
    using semantic_similarity_in_range by blast
  define b where "b = calculate_keyword_match U query docs"
  define c where "c = calculate_context_relevance U query docs"
  define d where "d = calculate_data_freshness now docs"
  define e where "e = calculate_source_reliability docs"
  define f where "f = calculate_query_clarity U query"
  define g where "g = calculate_answer_completeness U query answer"
  have r: "0 \<le> b" "b \<le> 1" "0 \<le> c" "c \<le> 1" "0 \<le> d" "d \<le> 1" "0 \<le> e" "e \<le> 1"
    "0 \<le> f" "f \<le> 1" "0 \<le> g" "g \<le> 1"
    unfolding b_def c_def d_def e_def f_def g_def
    using keyword_match_in_range context_relevance_in_range data_freshness_nonneg
      data_freshness_le_one [OF assms] source_reliability_in_range query_clarity_in_range
      answer_completeness_in_range
    by simp_all
  let ?factors = "[(ascii ''semantic_similarity'', a), (ascii ''keyword_match'', b),
      (ascii ''context_relevance'', c), (ascii ''data_freshness'', d),
      (ascii ''source_reliability'', e), (ascii ''query_clarity'', f),
      (ascii ''answer_completeness'', g)]"
  let ?overall = "a * 0.25 + (b * 0.2 + (c * 0.15 + (d * 0.1 + (e * 0.1 + (f * 0.1 + g * 0.1)))))"
  have ws: "weighted_sum weights ?factors = Inr ?overall"
    by (simp add: weights_def py_lookup_def ascii_def)
  obtain expl where expl: "generate_explanation fmt ?factors ?overall = Inr expl"
    using generate_explanation_total [of ?factors fmt ?overall] by auto
  obtain recs where recs:
    "generate_recommendations ?factors (get_confidence_level ?overall) = Inr recs"
    by (cases "get_confidence_level ?overall")
       (simp_all add: generate_recommendations_def py_lookup_def ascii_def)
  have run: "calculate_confidence U fmt now query docs scores answer
      = Inr \<lparr>cs_overall_score = ?overall, cs_level = get_confidence_level ?overall,
           cs_factors = ?factors, cs_explanation = expl, cs_recommendations = recs\<rparr>"
    using a(1) ws expl recs
    unfolding calculate_confidence_def b_def c_def d_def e_def f_def g_def
    by (simp add: Let_def)
  have "0 \<le> ?overall" "?overall \<le> 1"
    using a(2,3) r by simp_all
  with run a(2,3) r show ?thesis
    by simp
qed

text \<open>
  C5.  Six factors lie in \<open>[0, 1]\<close> for every input, and so do the freshness factor and
  the overall score when no recipe is dated after \<open>now\<close> (\<open>confidence_in_range\<close>).  The
  freshness of a recipe is \<open>max(0, 1 - days_old / 365)\<close>, without the cap at 1 that the other
  factors have: a recipe dated one day after \<open>now\<close> has freshness 366/365, and one dated
  ten years after \<open>now\<close>, with an empty query and answer, has freshness 11 and the overall
  score 1.21.
\<close>

theorem confidence_out_of_range:
  "calculate_data_freshness 0 [future_recipe 1] = 366 / 365
   \<and> (\<forall>fmt. case calculate_confidence ascii_db fmt 0 [] [future_recipe 3650] [] [] of
        Inl e \<Rightarrow> False
      | Inr c \<Rightarrow>
          map_of (cs_factors c) (ascii ''data_freshness'') = Some 11
          \<and> cs_overall_score c = 1.21 \<and> cs_level c = VERY_HIGH)"
  apply (rule conjI)
   apply (rule freshness_tomorrow)
  apply (rule allI)
  apply (simp add: calculate_confidence_def semantic_empty keyword_empty_query context_empty_query
      freshness_future reliability_bare clarity_empty completeness_empty)
  apply (simp add: weights_def py_lookup_def ascii_def get_confidence_level_def
      generate_recommendations_def generate_explanation_def py_getitem_def Let_def
      split: sum.splits)
  done

subsection \<open>The recommendations\<close>

lemma recommendations_low:
  assumes "py_lookup factors (ascii ''semantic_similarity'') = Inr s"
    and "py_lookup factors (ascii ''keyword_match'') = Inr k"
    and "py_lookup factors (ascii ''query_clarity'') = Inr c"
    and "0.5 \<le> s" and "0.5 \<le> k" and "0.5 \<le> c"
    and "level = LOW \<or> level = VERY_LOW"
  shows "generate_recommendations factors level = Inr []"
  using assms by (auto simp: generate_recommendations_def)

lemma half_sum: "weighted_sum weights half_factors = Inr 0.275"
  by (simp add: half_factors_def weights_def py_lookup_def ascii_def)

lemma half_recs: "generate_recommendations half_factors VERY_LOW = Inr []"
  by (simp add: half_factors_def generate_recommendations_def py_lookup_def ascii_def)

lemma words_pho_bo:
  "word_set ascii_db (str_lower ascii_db (ascii ''pho bo'')) = {ascii ''pho'', ascii ''bo''}"
  by (simp add: word_set_def ascii_db_def ascii_def)

lemma words_old_pho:
  "word_set ascii_db (str_lower ascii_db (keyword_doc_text old_pho)) = {ascii ''pho''}"
  by (simp add: word_set_def ascii_db_def ascii_def keyword_doc_text_def old_pho_def)

lemma keyword_half: "calculate_keyword_match ascii_db (ascii ''pho bo'') [old_pho] = 0.5"
  by (simp add: calculate_keyword_match_def words_pho_bo words_old_pho)
     (simp add: ascii_def)

lemma lower_pho_bo: "str_lower ascii_db (ascii ''pho bo'') = ascii ''pho bo''"
  by (simp add: ascii_db_def ascii_def)

lemma context_zero: "calculate_context_relevance ascii_db (ascii ''pho bo'') [old_pho] = 0"
  unfolding calculate_context_relevance_def lower_pho_bo
  by (simp add: doc_relevance_def np_mean_def cooking_keywords_def cong_thuc_def cach_lam_def
      faq_question_words_def ascii_def old_pho_def)

lemma freshness_zero: "calculate_data_freshness (31536000000000) [old_pho] = 0"
  by (simp add: calculate_data_freshness_def doc_freshness_def np_mean_def old_pho_def)

lemma reliability_old: "calculate_source_reliability [old_pho] = 0.8"
  by (simp add: calculate_source_reliability_def doc_reliability_def np_mean_def old_pho_def)

lemma clarity_half: "calculate_query_clarity ascii_db (ascii ''pho bo'') = 0.5"
  unfolding calculate_query_clarity_def lower_pho_bo
  by (simp add: py_strip_def ascii_db_def ascii_def specific_words_def question_words_def)

lemma low_run:
  "case calculate_confidence ascii_db fmt (31536000000000) (ascii ''pho bo'') [old_pho] [1] [] of
     Inl e \<Rightarrow> False
   | Inr c \<Rightarrow> cs_overall_score c = 0.49 \<and> cs_level c = LOW \<and> cs_recommendations c = []"
  apply (simp add: calculate_confidence_def semantic_one keyword_half context_zero
      freshness_zero reliability_old clarity_half completeness_empty
      calculate_answer_completeness_def)
  apply (simp add: weights_def py_lookup_def ascii_def get_confidence_level_def
      generate_recommendations_def generate_explanation_def py_getitem_def Let_def
      split: sum.splits)
  done

text \<open>
  C10.  At the levels \<open>LOW\<close> and \<open>VERY_LOW\<close> the three rules look at the semantic, the
  keyword and the clarity factor only, each against 0.5: when all three are at least 0.5
  the list of recommendations is empty.  Such a result exists: the query ``pho bo'' with
  one similarity score of 1, one recipe named ``pho'' dated a year before \<open>now\<close>, and an
  empty answer has the overall score 0.49, the level \<open>LOW\<close> and no recommendation.
\<close>

theorem recommendations_empty_below_medium:
  "(\<forall>factors level s k c.
      py_lookup factors (ascii ''semantic_similarity'') = Inr s
      \<and> py_lookup factors (ascii ''keyword_match'') = Inr k
      \<and> py_lookup factors (ascii ''query_clarity'') = Inr c
      \<and> 0.5 \<le> s \<and> 0.5 \<le> k \<and> 0.5 \<le> c \<and> (level = LOW \<or> level = VERY_LOW)
      \<longrightarrow> generate_recommendations factors level = Inr [])
   \<and> (\<forall>fmt. case calculate_confidence ascii_db fmt 31536000000000 (ascii ''pho bo'')
                     [old_pho] [1] [] of
              Inl e \<Rightarrow> False
            | Inr c \<Rightarrow>
                cs_overall_score c = 0.49 \<and> cs_level c = LOW \<and> cs_recommendations c = [])"
  using recommendations_low low_run by blast

theorem recommendations_empty_below_medium_witness:
  "weighted_sum weights half_factors = Inr 0.275
   \<and> get_confidence_level 0.275 = VERY_LOW
   \<and> generate_recommendations half_factors VERY_LOW = Inr []"
proof -
  have lookups: "py_lookup half_factors (ascii ''semantic_similarity'') = Inr 0.5"
    "py_lookup half_factors (ascii ''keyword_match'') = Inr 0.5"
    "py_lookup half_factors (ascii ''query_clarity'') = Inr 0.5"
    by (simp_all add: half_factors_def py_lookup_def ascii_def)
  have "py_lookup half_factors (ascii ''semantic_similarity'') = Inr 0.5
      \<and> py_lookup half_factors (ascii ''keyword_match'') = Inr 0.5
      \<and> py_lookup half_factors (ascii ''query_clarity'') = Inr 0.5
      \<and> 0.5 \<le> (0.5 :: real) \<and> 0.5 \<le> (0.5 :: real) \<and> 0.5 \<le> (0.5 :: real)
      \<and> (VERY_LOW = LOW \<or> VERY_LOW = VERY_LOW)
      \<longrightarrow> generate_recommendations half_factors VERY_LOW = Inr []"
    using recommendations_empty_below_medium by blast
  with lookups have "generate_recommendations half_factors VERY_LOW = Inr []"
    by simp
  with half_sum show ?thesis
    by (simp add: get_confidence_level_def)
qed

end
